theory Spec2Isabelle
  imports Main "HOL-Library.Word"
begin

section \<open>The OpenVR interface seen by the input module\<close>

text \<open>
  The module \<^verbatim>\<open>ivrinput.cpp\<close> is an adapter over the action-based input interface of
  OpenVR (\<^verbatim>\<open>vr::VRInput()\<close>). The header \<^verbatim>\<open>openvr.h\<close> is third-party code, included
  by the module and not part of it. The types and constants below are those of that
  header: handles are 64-bit integers, \<^verbatim>\<open>k_ulInvalidInputValueHandle\<close> is 0, an error
  code is an enumeration value and \<^verbatim>\<open>VRInputError_None\<close> is 0, a \<^verbatim>\<open>float\<close> is kept as
  its 32-bit pattern (the module never computes with one, it only zero-initialises and
  copies them). Of the two action data structures the module reads \<^verbatim>\<open>bState\<close> and
  \<^verbatim>\<open>bChanged\<close> only.
\<close>

type_synonym VRActionHandle_t = "64 word"
type_synonym VRActionSetHandle_t = "64 word"
type_synonym VRInputValueHandle_t = "64 word"
type_synonym EVRInputError = int

definition k_ulInvalidInputValueHandle :: VRInputValueHandle_t where
  "k_ulInvalidInputValueHandle = 0"

definition VRInputError_None :: EVRInputError where
  "VRInputError_None = 0"

record InputDigitalActionData_t =
  bActive :: bool
  activeOrigin :: VRInputValueHandle_t
  bState :: bool
  bChanged :: bool
  fUpdateTime :: "32 word"

text \<open>The analog structure shares three field names with the digital one; they carry
  the suffix \<open>_analog\<close> here.\<close>

record InputAnalogActionData_t =
  bActive_analog :: bool
  activeOrigin_analog :: VRInputValueHandle_t
  x :: "32 word"
  y :: "32 word"
  z :: "32 word"
  deltaX :: "32 word"
  deltaY :: "32 word"
  deltaZ :: "32 word"
  fUpdateTime_analog :: "32 word"

text \<open>The fields of the active action set descriptor that the module assigns.\<close>

record VRActiveActionSet_t =
  ulActionSet :: VRActionSetHandle_t
  ulRestrictedToDevice :: VRInputValueHandle_t
  nPriority :: "32 word"

text \<open>The value of \<^verbatim>\<open>T x = {};\<close> for each structure: every field zero.\<close>

definition zero_InputDigitalActionData_t :: InputDigitalActionData_t where
  "zero_InputDigitalActionData_t =
     \<lparr>bActive = False, activeOrigin = 0, bState = False, bChanged = False, fUpdateTime = 0\<rparr>"

definition zero_InputAnalogActionData_t :: InputAnalogActionData_t where
  "zero_InputAnalogActionData_t =
     \<lparr>bActive_analog = False, activeOrigin_analog = 0, x = 0, y = 0, z = 0,
      deltaX = 0, deltaY = 0, deltaZ = 0, fUpdateTime_analog = 0\<rparr>"

definition zero_VRActiveActionSet_t :: VRActiveActionSet_t where
  "zero_VRActiveActionSet_t = \<lparr>ulActionSet = 0, ulRestrictedToDevice = 0, nPriority = 0\<rparr>"

text \<open>
  The runtime behind \<^verbatim>\<open>vr::VRInput()\<close> is external. It is a parameter of every
  operation: a record of transition functions over the runtime's own state \<open>'r\<close>,
  together with the three structure sizes that \<^verbatim>\<open>sizeof\<close> yields for the header the
  module is compiled against. A call with an out-parameter receives the buffer as the
  caller prepared it and returns the buffer as the call leaves it, next to the error
  code. \<^verbatim>\<open>UpdateActionState\<close> is handed its descriptor array by a pointer to data
  that is not constant: the array is in and out as well, the call returns it as it leaves
  it.
\<close>

record 'r openvr =
  sizeof_InputDigitalActionData_t :: nat
  sizeof_InputAnalogActionData_t :: nat
  sizeof_VRActiveActionSet_t :: nat
  SetActionManifestPath :: "string \<Rightarrow> 'r \<Rightarrow> EVRInputError \<times> 'r"
  GetActionSetHandle :: "string \<Rightarrow> 'r \<Rightarrow> EVRInputError \<times> VRActionSetHandle_t \<times> 'r"
  GetActionHandle :: "string \<Rightarrow> 'r \<Rightarrow> EVRInputError \<times> VRActionHandle_t \<times> 'r"
  GetDigitalActionData ::
    "VRActionHandle_t \<Rightarrow> InputDigitalActionData_t \<Rightarrow> nat \<Rightarrow> VRInputValueHandle_t \<Rightarrow> 'r
       \<Rightarrow> EVRInputError \<times> InputDigitalActionData_t \<times> 'r"
  GetAnalogActionData ::
    "VRActionHandle_t \<Rightarrow> InputAnalogActionData_t \<Rightarrow> nat \<Rightarrow> VRInputValueHandle_t \<Rightarrow> 'r
       \<Rightarrow> EVRInputError \<times> InputAnalogActionData_t \<times> 'r"
  UpdateActionState ::
    "VRActiveActionSet_t list \<Rightarrow> nat \<Rightarrow> nat \<Rightarrow> 'r
       \<Rightarrow> EVRInputError \<times> VRActiveActionSet_t list \<times> 'r"

section \<open>The world an operation runs in\<close>

text \<open>
  An operation of the module has three effects: it calls the runtime, it writes to the
  log (\<^verbatim>\<open>LOG( ERROR ) << ...\<close>), and it may throw. The world holds the runtime's
  state, the log written so far (a line is the sequence of items streamed into it) and
  the trace of the calls made into the runtime; an exception is a value.
\<close>

datatype log_item = Str string | Err EVRInputError

datatype call =
    Call_SetActionManifestPath string
  | Call_GetActionSetHandle string
  | Call_GetActionHandle string
  | Call_GetDigitalActionData VRActionHandle_t nat VRInputValueHandle_t
  | Call_GetAnalogActionData VRActionHandle_t nat VRInputValueHandle_t
  | Call_UpdateActionState "VRActiveActionSet_t list" nat nat

datatype exn = runtime_error string

record 'r world =
  runtime :: 'r
  errlog :: "log_item list list"
  calls :: "call list"

definition LOG_ERROR :: "log_item list \<Rightarrow> 'r world \<Rightarrow> 'r world" where
  "LOG_ERROR line w = w\<lparr>errlog := errlog w @ [line]\<rparr>"

definition VRInput_SetActionManifestPath ::
  "'r openvr \<Rightarrow> string \<Rightarrow> 'r world \<Rightarrow> EVRInputError \<times> 'r world" where
  "VRInput_SetActionManifestPath vr path w =
     (case SetActionManifestPath vr path (runtime w) of
        (error, r) \<Rightarrow>
          (error, w\<lparr>runtime := r, calls := calls w @ [Call_SetActionManifestPath path]\<rparr>))"

definition VRInput_GetActionSetHandle ::
  "'r openvr \<Rightarrow> string \<Rightarrow> 'r world \<Rightarrow> EVRInputError \<times> VRActionSetHandle_t \<times> 'r world" where
  "VRInput_GetActionSetHandle vr setName w =
     (case GetActionSetHandle vr setName (runtime w) of
        (error, h, r) \<Rightarrow>
          (error, h, w\<lparr>runtime := r, calls := calls w @ [Call_GetActionSetHandle setName]\<rparr>))"

definition VRInput_GetActionHandle ::
  "'r openvr \<Rightarrow> string \<Rightarrow> 'r world \<Rightarrow> EVRInputError \<times> VRActionHandle_t \<times> 'r world" where
  "VRInput_GetActionHandle vr actionName w =
     (case GetActionHandle vr actionName (runtime w) of
        (error, h, r) \<Rightarrow>
          (error, h, w\<lparr>runtime := r, calls := calls w @ [Call_GetActionHandle actionName]\<rparr>))"

definition VRInput_GetDigitalActionData ::
  "'r openvr \<Rightarrow> VRActionHandle_t \<Rightarrow> InputDigitalActionData_t \<Rightarrow> nat \<Rightarrow> VRInputValueHandle_t
     \<Rightarrow> 'r world \<Rightarrow> EVRInputError \<times> InputDigitalActionData_t \<times> 'r world" where
  "VRInput_GetDigitalActionData vr action pActionData unActionDataSize ulRestrictToDevice w =
     (case GetDigitalActionData vr action pActionData unActionDataSize ulRestrictToDevice
             (runtime w) of
        (error, d, r) \<Rightarrow>
          (error, d,
           w\<lparr>runtime := r,
             calls := calls w
               @ [Call_GetDigitalActionData action unActionDataSize ulRestrictToDevice]\<rparr>))"

definition VRInput_GetAnalogActionData ::
  "'r openvr \<Rightarrow> VRActionHandle_t \<Rightarrow> InputAnalogActionData_t \<Rightarrow> nat \<Rightarrow> VRInputValueHandle_t
     \<Rightarrow> 'r world \<Rightarrow> EVRInputError \<times> InputAnalogActionData_t \<times> 'r world" where
  "VRInput_GetAnalogActionData vr action pActionData unActionDataSize ulRestrictToDevice w =
     (case GetAnalogActionData vr action pActionData unActionDataSize ulRestrictToDevice
             (runtime w) of
        (error, d, r) \<Rightarrow>
          (error, d,
           w\<lparr>runtime := r,
             calls := calls w
               @ [Call_GetAnalogActionData action unActionDataSize ulRestrictToDevice]\<rparr>))"

definition VRInput_UpdateActionState ::
  "'r openvr \<Rightarrow> VRActiveActionSet_t list \<Rightarrow> nat \<Rightarrow> nat \<Rightarrow> 'r world
     \<Rightarrow> EVRInputError \<times> VRActiveActionSet_t list \<times> 'r world" where
  "VRInput_UpdateActionState vr pSets unSizeOfVRSelectedActionSet_t unSetCount w =
     (case UpdateActionState vr pSets unSizeOfVRSelectedActionSet_t unSetCount (runtime w) of
        (error, sets, r) \<Rightarrow>
          (error, sets,
           w\<lparr>runtime := r,
             calls := calls w
               @ [Call_UpdateActionState pSets unSizeOfVRSelectedActionSet_t unSetCount]\<rparr>))"

section \<open>Actions, action sets and the manifest\<close>

text \<open>
  The header \<^verbatim>\<open>ivrinput.h\<close>, which declares the classes \<^verbatim>\<open>Action\<close>,
  \<^verbatim>\<open>ActionSet\<close> and \<^verbatim>\<open>Manifest\<close>, the enumeration \<^verbatim>\<open>ActionType\<close> and the string
  constants of \<^verbatim>\<open>input_strings\<close>, is not among the sources. The source files use
  the classes through their constructors and through \<^verbatim>\<open>name()\<close>, \<^verbatim>\<open>type()\<close> and
  \<^verbatim>\<open>handle()\<close>; what these do is taken from the data model of the specification.
\<close>

text \<open>Modelled from the spec: the enumeration \<^verbatim>\<open>ActionType\<close> of the missing header;
  an action is of type Digital or Analog.\<close>

datatype ActionType = Digital | Analog

text \<open>Modelled from the spec: the class \<^verbatim>\<open>Action\<close> of the missing header; an action
  has a name (the identifier of the manifest), a type and an opaque handle. The
  accessors \<^verbatim>\<open>name()\<close>, \<^verbatim>\<open>type()\<close> and \<^verbatim>\<open>handle()\<close> are the field selectors.\<close>

record Action =
  name :: string
  type :: ActionType
  handle :: VRActionHandle_t

text \<open>Modelled from the spec: the class \<^verbatim>\<open>ActionSet\<close> of the missing header; a
  grouping of actions with a name, resolved to an opaque handle (\<^verbatim>\<open>handle()\<close> is
  \<open>set_handle\<close>).\<close>

record ActionSet =
  set_name :: string
  set_handle :: VRActionSetHandle_t

text \<open>Modelled from the spec: the class \<^verbatim>\<open>Manifest\<close> of the missing header; the
  manifest is a file owned by the runtime, the object holds nothing.\<close>

datatype Manifest = Manifest

text \<open>Modelled from the spec: the constructor of \<^verbatim>\<open>Action\<close> in the missing header.
  The handle is resolved once, by name, from the runtime; an error code of the runtime
  is logged (here: the name and the code) and execution continues.\<close>

definition Action_ctor :: "'r openvr \<Rightarrow> string \<Rightarrow> ActionType \<Rightarrow> 'r world \<Rightarrow> Action \<times> 'r world" where
  "Action_ctor vr actionName t w =
     (case VRInput_GetActionHandle vr actionName w of
        (error, h, w1) \<Rightarrow>
          (\<lparr>name = actionName, type = t, handle = h\<rparr>,
           if error \<noteq> VRInputError_None
           then LOG_ERROR [Str actionName, Err error] w1
           else w1))"

text \<open>Modelled from the spec: the constructor of \<^verbatim>\<open>ActionSet\<close> in the missing
  header. The handle is resolved by name from the runtime; an error code is logged and
  execution continues.\<close>

definition ActionSet_ctor :: "'r openvr \<Rightarrow> string \<Rightarrow> 'r world \<Rightarrow> ActionSet \<times> 'r world" where
  "ActionSet_ctor vr setName w =
     (case VRInput_GetActionSetHandle vr setName w of
        (error, h, w1) \<Rightarrow>
          (\<lparr>set_name = setName, set_handle = h\<rparr>,
           if error \<noteq> VRInputError_None
           then LOG_ERROR [Str setName, Err error] w1
           else w1))"

text \<open>Modelled from the spec: the constructor of \<^verbatim>\<open>Manifest\<close> in the missing
  header. The path of the manifest file is handed to the runtime, which loads the
  file; an error code is logged and execution continues.\<close>

definition Manifest_ctor :: "'r openvr \<Rightarrow> string \<Rightarrow> 'r world \<Rightarrow> Manifest \<times> 'r world" where
  "Manifest_ctor vr actionManifestPath w =
     (case VRInput_SetActionManifestPath vr actionManifestPath w of
        (error, w1) \<Rightarrow>
          (Manifest,
           if error \<noteq> VRInputError_None
           then LOG_ERROR [Str actionManifestPath, Err error] w1
           else w1))"

section \<open>The accessors of \<^verbatim>\<open>src/ivrinput/ivrinput.cpp\<close>\<close>

text \<open>
  Every accessor takes its action by mutable reference (\<^verbatim>\<open>Action&\<close>): the model
  returns the referenced object next to the result, so that what an accessor does to
  the action is part of its value. The result is \<open>Inl\<close> of the exception thrown, or
  \<open>Inr\<close> of the value returned.
\<close>

definition getDigitalActionData ::
  "'r openvr \<Rightarrow> Action \<Rightarrow> 'r world \<Rightarrow> (exn + InputDigitalActionData_t) \<times> Action \<times> 'r world" where
  "getDigitalActionData vr action w =
     (if type action \<noteq> Digital then
        (Inl (runtime_error
           (''Action was passed to IVRInput getDigitalActionData without being ''
            @ ''a digital type. See log for details.'')),
         action,
         LOG_ERROR [Str (''Action was passed to IVRInput getDigitalActionData without ''
                         @ ''being a digital type. Action: ''),
                    Str (name action)] w)
      else
        (case VRInput_GetDigitalActionData vr (handle action) zero_InputDigitalActionData_t
                (sizeof_InputDigitalActionData_t vr) k_ulInvalidInputValueHandle w of
           (error, handleData, w1) \<Rightarrow>
             (Inr handleData, action,
              if error \<noteq> VRInputError_None
              then LOG_ERROR [Str ''Error getting IVRInput Digital Action Data for handle '',
                              Str (name action), Str ''. SteamVR Error: '', Err error] w1
              else w1)))"

definition getAnalogActionData ::
  "'r openvr \<Rightarrow> Action \<Rightarrow> 'r world \<Rightarrow> (exn + InputAnalogActionData_t) \<times> Action \<times> 'r world" where
  "getAnalogActionData vr action w =
     (if type action \<noteq> Analog then
        (Inl (runtime_error
           (''Action was passed to IVRInput getAnalogActionData without being ''
            @ ''an analog type. See log for details.'')),
         action,
         LOG_ERROR [Str (''Action was passed to IVRInput getAnalogActionData without ''
                         @ ''being an analog type. Action: ''),
                    Str (name action)] w)
      else
        (case VRInput_GetAnalogActionData vr (handle action) zero_InputAnalogActionData_t
                (sizeof_InputAnalogActionData_t vr) k_ulInvalidInputValueHandle w of
           (error, handleData, w1) \<Rightarrow>
             (Inr handleData, action,
              if error \<noteq> VRInputError_None
              then LOG_ERROR [Str ''Error getting IVRInput Digital Action Data for handle '',
                              Str (name action), Str ''. SteamVR Error: '', Err error] w1
              else w1)))"

definition isDigitalActionActivatedOnce ::
  "'r openvr \<Rightarrow> Action \<Rightarrow> 'r world \<Rightarrow> (exn + bool) \<times> Action \<times> 'r world" where
  "isDigitalActionActivatedOnce vr action w =
     (case getDigitalActionData vr action w of
        (Inl e, action1, w1) \<Rightarrow> (Inl e, action1, w1)
      | (Inr handleData, action1, w1) \<Rightarrow>
          (Inr (bState handleData \<and> bChanged handleData), action1, w1))"

definition isDigitalActionActivatedConstant ::
  "'r openvr \<Rightarrow> Action \<Rightarrow> 'r world \<Rightarrow> (exn + bool) \<times> Action \<times> 'r world" where
  "isDigitalActionActivatedConstant vr action w =
     (case getDigitalActionData vr action w of
        (Inl e, action1, w1) \<Rightarrow> (Inl e, action1, w1)
      | (Inr handleData, action1, w1) \<Rightarrow> (Inr (bState handleData), action1, w1))"

section \<open>The class \<^verbatim>\<open>SteamIVRInput\<close> of \<^verbatim>\<open>src/ivrinput/ivrinput.cpp\<close>\<close>

text \<open>
  The string constants of \<^verbatim>\<open>input_strings\<close> and the path of the manifest are declared
  in the missing header: they are parameters of the constructor, a record with one field
  for each constant the initialiser list names. The members of the class are those the
  initialiser list and the constructor body name.
\<close>

record input_strings =
  k_setMain :: string
  k_actionNextTrack :: string
  k_actionPreviousTrack :: string
  k_actionPausePlayTrack :: string
  k_actionStopTrack :: string
  k_actionLeftHandPlayspaceRotate :: string
  k_actionRightHandPlayspaceRotate :: string
  k_actionLeftHandPlayspaceMove :: string
  k_actionRightHandPlayspaceMove :: string
  k_actionOptionalOverrideLeftHandPlayspaceRotate :: string
  k_actionOptionalOverrideRightHandPlayspaceRotate :: string
  k_actionOptionalOverrideLeftHandPlayspaceMove :: string
  k_actionOptionalOverrideRightHandPlayspaceMove :: string

record SteamIVRInput =
  m_manifest :: Manifest
  m_mainSet :: ActionSet
  m_nextTrack :: Action
  m_previousTrack :: Action
  m_pausePlayTrack :: Action
  m_stopTrack :: Action
  m_leftHandPlayspaceRotate :: Action
  m_rightHandPlayspaceRotate :: Action
  m_leftHandPlayspaceMove :: Action
  m_rightHandPlayspaceMove :: Action
  m_optionalOverrideLeftHandPlayspaceRotate :: Action
  m_optionalOverrideRightHandPlayspaceRotate :: Action
  m_optionalOverrideLeftHandPlayspaceMove :: Action
  m_optionalOverrideRightHandPlayspaceMove :: Action
  m_activeActionSet :: VRActiveActionSet_t

text \<open>
  The constructor: the members are constructed in the order of the initialiser list, each
  one calling the runtime, then the body fills the descriptor of the active action set.
\<close>

definition SteamIVRInput_ctor ::
  "'r openvr \<Rightarrow> string \<Rightarrow> input_strings \<Rightarrow> 'r world \<Rightarrow> SteamIVRInput \<times> 'r world" where
  "SteamIVRInput_ctor vr actionManifestPath strs w0 =
     (let (manifest, w) = Manifest_ctor vr actionManifestPath w0;
          (mainSet, w) = ActionSet_ctor vr (k_setMain strs) w;
          (nextTrack, w) = Action_ctor vr (k_actionNextTrack strs) Digital w;
          (previousTrack, w) = Action_ctor vr (k_actionPreviousTrack strs) Digital w;
          (pausePlayTrack, w) = Action_ctor vr (k_actionPausePlayTrack strs) Digital w;
          (stopTrack, w) = Action_ctor vr (k_actionStopTrack strs) Digital w;
          (leftHandPlayspaceRotate, w) = Action_ctor vr (k_actionLeftHandPlayspaceRotate strs) Digital w;
          (rightHandPlayspaceRotate, w) = Action_ctor vr (k_actionRightHandPlayspaceRotate strs) Digital w;
          (leftHandPlayspaceMove, w) = Action_ctor vr (k_actionLeftHandPlayspaceMove strs) Digital w;
          (rightHandPlayspaceMove, w) = Action_ctor vr (k_actionRightHandPlayspaceMove strs) Digital w;
          (optionalOverrideLeftHandPlayspaceRotate, w) = Action_ctor vr (k_actionOptionalOverrideLeftHandPlayspaceRotate strs) Digital w;
          (optionalOverrideRightHandPlayspaceRotate, w) = Action_ctor vr (k_actionOptionalOverrideRightHandPlayspaceRotate strs) Digital w;
          (optionalOverrideLeftHandPlayspaceMove, w) = Action_ctor vr (k_actionOptionalOverrideLeftHandPlayspaceMove strs) Digital w;
          (optionalOverrideRightHandPlayspaceMove, w) = Action_ctor vr (k_actionOptionalOverrideRightHandPlayspaceMove strs) Digital w;
          self = \<lparr>m_manifest = manifest, m_mainSet = mainSet,
                  m_nextTrack = nextTrack,
                  m_previousTrack = previousTrack,
                  m_pausePlayTrack = pausePlayTrack,
                  m_stopTrack = stopTrack,
                  m_leftHandPlayspaceRotate = leftHandPlayspaceRotate,
                  m_rightHandPlayspaceRotate = rightHandPlayspaceRotate,
                  m_leftHandPlayspaceMove = leftHandPlayspaceMove,
                  m_rightHandPlayspaceMove = rightHandPlayspaceMove,
                  m_optionalOverrideLeftHandPlayspaceRotate = optionalOverrideLeftHandPlayspaceRotate,
                  m_optionalOverrideRightHandPlayspaceRotate = optionalOverrideRightHandPlayspaceRotate,
                  m_optionalOverrideLeftHandPlayspaceMove = optionalOverrideLeftHandPlayspaceMove,
                  m_optionalOverrideRightHandPlayspaceMove = optionalOverrideRightHandPlayspaceMove,
                  m_activeActionSet = zero_VRActiveActionSet_t\<rparr>;
          self = self\<lparr>m_activeActionSet :=
                   (m_activeActionSet self)\<lparr>ulActionSet := set_handle (m_mainSet self)\<rparr>\<rparr>;
          self = self\<lparr>m_activeActionSet :=
                   (m_activeActionSet self)\<lparr>ulRestrictedToDevice := k_ulInvalidInputValueHandle\<rparr>\<rparr>;
          self = self\<lparr>m_activeActionSet := (m_activeActionSet self)\<lparr>nPriority := 0\<rparr>\<rparr>
      in (self, w))"

text \<open>
  A member function passes one member action by reference to an accessor; the action
  as the accessor leaves it is stored back into the member.
\<close>

definition nextSong ::
  "'r openvr \<Rightarrow> SteamIVRInput \<Rightarrow> 'r world \<Rightarrow> (exn + bool) \<times> SteamIVRInput \<times> 'r world" where
  "nextSong vr self w =
     (case isDigitalActionActivatedOnce vr (m_nextTrack self) w of
        (r, action, w1) \<Rightarrow> (r, self\<lparr>m_nextTrack := action\<rparr>, w1))"

definition previousSong ::
  "'r openvr \<Rightarrow> SteamIVRInput \<Rightarrow> 'r world \<Rightarrow> (exn + bool) \<times> SteamIVRInput \<times> 'r world" where
  "previousSong vr self w =
     (case isDigitalActionActivatedOnce vr (m_previousTrack self) w of
        (r, action, w1) \<Rightarrow> (r, self\<lparr>m_previousTrack := action\<rparr>, w1))"

definition pausePlaySong ::
  "'r openvr \<Rightarrow> SteamIVRInput \<Rightarrow> 'r world \<Rightarrow> (exn + bool) \<times> SteamIVRInput \<times> 'r world" where
  "pausePlaySong vr self w =
     (case isDigitalActionActivatedOnce vr (m_pausePlayTrack self) w of
        (r, action, w1) \<Rightarrow> (r, self\<lparr>m_pausePlayTrack := action\<rparr>, w1))"

definition stopSong ::
  "'r openvr \<Rightarrow> SteamIVRInput \<Rightarrow> 'r world \<Rightarrow> (exn + bool) \<times> SteamIVRInput \<times> 'r world" where
  "stopSong vr self w =
     (case isDigitalActionActivatedOnce vr (m_stopTrack self) w of
        (r, action, w1) \<Rightarrow> (r, self\<lparr>m_stopTrack := action\<rparr>, w1))"

definition leftHandPlayspaceRotate ::
  "'r openvr \<Rightarrow> SteamIVRInput \<Rightarrow> 'r world \<Rightarrow> (exn + bool) \<times> SteamIVRInput \<times> 'r world" where
  "leftHandPlayspaceRotate vr self w =
     (case isDigitalActionActivatedConstant vr (m_leftHandPlayspaceRotate self) w of
        (r, action, w1) \<Rightarrow> (r, self\<lparr>m_leftHandPlayspaceRotate := action\<rparr>, w1))"

definition rightHandPlayspaceRotate ::
  "'r openvr \<Rightarrow> SteamIVRInput \<Rightarrow> 'r world \<Rightarrow> (exn + bool) \<times> SteamIVRInput \<times> 'r world" where
  "rightHandPlayspaceRotate vr self w =
     (case isDigitalActionActivatedConstant vr (m_rightHandPlayspaceRotate self) w of
        (r, action, w1) \<Rightarrow> (r, self\<lparr>m_rightHandPlayspaceRotate := action\<rparr>, w1))"

definition leftHandPlayspaceMove ::
  "'r openvr \<Rightarrow> SteamIVRInput \<Rightarrow> 'r world \<Rightarrow> (exn + bool) \<times> SteamIVRInput \<times> 'r world" where
  "leftHandPlayspaceMove vr self w =
     (case isDigitalActionActivatedConstant vr (m_leftHandPlayspaceMove self) w of
        (r, action, w1) \<Rightarrow> (r, self\<lparr>m_leftHandPlayspaceMove := action\<rparr>, w1))"

definition rightHandPlayspaceMove ::
  "'r openvr \<Rightarrow> SteamIVRInput \<Rightarrow> 'r world \<Rightarrow> (exn + bool) \<times> SteamIVRInput \<times> 'r world" where
  "rightHandPlayspaceMove vr self w =
     (case isDigitalActionActivatedConstant vr (m_rightHandPlayspaceMove self) w of
        (r, action, w1) \<Rightarrow> (r, self\<lparr>m_rightHandPlayspaceMove := action\<rparr>, w1))"

definition optionalOverrideLeftHandPlayspaceRotate ::
  "'r openvr \<Rightarrow> SteamIVRInput \<Rightarrow> 'r world \<Rightarrow> (exn + bool) \<times> SteamIVRInput \<times> 'r world" where
  "optionalOverrideLeftHandPlayspaceRotate vr self w =
     (case isDigitalActionActivatedConstant vr (m_optionalOverrideLeftHandPlayspaceRotate self) w of
        (r, action, w1) \<Rightarrow> (r, self\<lparr>m_optionalOverrideLeftHandPlayspaceRotate := action\<rparr>, w1))"

definition optionalOverrideRightHandPlayspaceRotate ::
  "'r openvr \<Rightarrow> SteamIVRInput \<Rightarrow> 'r world \<Rightarrow> (exn + bool) \<times> SteamIVRInput \<times> 'r world" where
  "optionalOverrideRightHandPlayspaceRotate vr self w =
     (case isDigitalActionActivatedConstant vr (m_optionalOverrideRightHandPlayspaceRotate self) w of
        (r, action, w1) \<Rightarrow> (r, self\<lparr>m_optionalOverrideRightHandPlayspaceRotate := action\<rparr>, w1))"

definition optionalOverrideLeftHandPlayspaceMove ::
  "'r openvr \<Rightarrow> SteamIVRInput \<Rightarrow> 'r world \<Rightarrow> (exn + bool) \<times> SteamIVRInput \<times> 'r world" where
  "optionalOverrideLeftHandPlayspaceMove vr self w =
     (case isDigitalActionActivatedConstant vr (m_optionalOverrideLeftHandPlayspaceMove self) w of
        (r, action, w1) \<Rightarrow> (r, self\<lparr>m_optionalOverrideLeftHandPlayspaceMove := action\<rparr>, w1))"

definition optionalOverrideRightHandPlayspaceMove ::
  "'r openvr \<Rightarrow> SteamIVRInput \<Rightarrow> 'r world \<Rightarrow> (exn + bool) \<times> SteamIVRInput \<times> 'r world" where
  "optionalOverrideRightHandPlayspaceMove vr self w =
     (case isDigitalActionActivatedConstant vr (m_optionalOverrideRightHandPlayspaceMove self) w of
        (r, action, w1) \<Rightarrow> (r, self\<lparr>m_optionalOverrideRightHandPlayspaceMove := action\<rparr>, w1))"

text \<open>
  \<^verbatim>\<open>UpdateStates\<close> hands the runtime the address of the member \<^verbatim>\<open>m_activeActionSet\<close>
  as an array of one descriptor. What the runtime leaves at that address is the member
  after the call: the first descriptor of the array as the call returns it (the member
  stays as it is when the runtime's answer holds no descriptor).
\<close>

definition UpdateStates ::
  "'r openvr \<Rightarrow> SteamIVRInput \<Rightarrow> 'r world
     \<Rightarrow> (exn + unit) \<times> SteamIVRInput \<times> 'r world" where
  "UpdateStates vr self w =
     (let numberOfSets = 1 in
      case VRInput_UpdateActionState vr [m_activeActionSet self]
             (sizeof_VRActiveActionSet_t vr) numberOfSets w of
        (error, sets, w1) \<Rightarrow>
          (Inr (),
           self\<lparr>m_activeActionSet :=
                  (case sets of [] \<Rightarrow> m_activeActionSet self | s # _ \<Rightarrow> s)\<rparr>,
           if error \<noteq> VRInputError_None
           then LOG_ERROR [Str ''Error during IVRInput action state update. OpenVR Error: '',
                           Err error] w1
           else w1))"

section \<open>The second version of the module (\<^verbatim>\<open>src/unnamed/part_001\<close>)\<close>

text \<open>
  The sources hold a second version of \<^verbatim>\<open>ivrinput.cpp\<close>, in which the playspace
  actions are named after room turn and room drag and a push-to-talk action is added.
  It is translated on its own; a name that the first version already uses carries the
  suffix \<open>_part_001\<close>.
\<close>

definition getDigitalActionData_part_001 ::
  "'r openvr \<Rightarrow> Action \<Rightarrow> 'r world \<Rightarrow> (exn + InputDigitalActionData_t) \<times> Action \<times> 'r world" where
  "getDigitalActionData_part_001 vr action w =
     (if type action \<noteq> Digital then
        (Inl (runtime_error
           (''Action was passed to IVRInput getDigitalActionData without being ''
            @ ''a digital type. See log for details.'')),
         action,
         LOG_ERROR [Str (''Action was passed to IVRInput getDigitalActionData without ''
                         @ ''being a digital type. Action: ''),
                    Str (name action)] w)
      else
        (case VRInput_GetDigitalActionData vr (handle action) zero_InputDigitalActionData_t
                (sizeof_InputDigitalActionData_t vr) k_ulInvalidInputValueHandle w of
           (error, handleData, w1) \<Rightarrow>
             (Inr handleData, action,
              if error \<noteq> VRInputError_None
              then LOG_ERROR [Str ''Error getting IVRInput Digital Action Data for handle '',
                              Str (name action), Str ''. SteamVR Error: '', Err error] w1
              else w1)))"

definition getAnalogActionData_part_001 ::
  "'r openvr \<Rightarrow> Action \<Rightarrow> 'r world \<Rightarrow> (exn + InputAnalogActionData_t) \<times> Action \<times> 'r world" where
  "getAnalogActionData_part_001 vr action w =
     (if type action \<noteq> Analog then
        (Inl (runtime_error
           (''Action was passed to IVRInput getAnalogActionData without being ''
            @ ''an analog type. See log for details.'')),
         action,
         LOG_ERROR [Str (''Action was passed to IVRInput getAnalogActionData without ''
                         @ ''being an analog type. Action: ''),
                    Str (name action)] w)
      else
        (case VRInput_GetAnalogActionData vr (handle action) zero_InputAnalogActionData_t
                (sizeof_InputAnalogActionData_t vr) k_ulInvalidInputValueHandle w of
           (error, handleData, w1) \<Rightarrow>
             (Inr handleData, action,
              if error \<noteq> VRInputError_None
              then LOG_ERROR [Str ''Error getting IVRInput Digital Action Data for handle '',
                              Str (name action), Str ''. SteamVR Error: '', Err error] w1
              else w1)))"

definition isDigitalActionActivatedOnce_part_001 ::
  "'r openvr \<Rightarrow> Action \<Rightarrow> 'r world \<Rightarrow> (exn + bool) \<times> Action \<times> 'r world" where
  "isDigitalActionActivatedOnce_part_001 vr action w =
     (case getDigitalActionData_part_001 vr action w of
        (Inl e, action1, w1) \<Rightarrow> (Inl e, action1, w1)
      | (Inr handleData, action1, w1) \<Rightarrow>
          (Inr (bState handleData \<and> bChanged handleData), action1, w1))"

definition isDigitalActionActivatedConstant_part_001 ::
  "'r openvr \<Rightarrow> Action \<Rightarrow> 'r world \<Rightarrow> (exn + bool) \<times> Action \<times> 'r world" where
  "isDigitalActionActivatedConstant_part_001 vr action w =
     (case getDigitalActionData_part_001 vr action w of
        (Inl e, action1, w1) \<Rightarrow> (Inl e, action1, w1)
      | (Inr handleData, action1, w1) \<Rightarrow> (Inr (bState handleData), action1, w1))"

record input_strings_part_001 =
  k_setMain_part_001 :: string
  k_actionNextTrack_part_001 :: string
  k_actionPreviousTrack_part_001 :: string
  k_actionPausePlayTrack_part_001 :: string
  k_actionStopTrack_part_001 :: string
  k_actionLeftHandRoomTurn :: string
  k_actionRightHandRoomTurn :: string
  k_actionLeftHandRoomDrag :: string
  k_actionRightHandRoomDrag :: string
  k_actionOptionalOverrideLeftHandRoomTurn :: string
  k_actionOptionalOverrideRightHandRoomTurn :: string
  k_actionOptionalOverrideLeftHandRoomDrag :: string
  k_actionOptionalOverrideRightHandRoomDrag :: string
  k_actionPushToTalk :: string

record SteamIVRInput_part_001 =
  m_manifest_part_001 :: Manifest
  m_mainSet_part_001 :: ActionSet
  m_nextTrack_part_001 :: Action
  m_previousTrack_part_001 :: Action
  m_pausePlayTrack_part_001 :: Action
  m_stopTrack_part_001 :: Action
  m_leftHandRoomTurn :: Action
  m_rightHandRoomTurn :: Action
  m_leftHandRoomDrag :: Action
  m_rightHandRoomDrag :: Action
  m_optionalOverrideLeftHandRoomTurn :: Action
  m_optionalOverrideRightHandRoomTurn :: Action
  m_optionalOverrideLeftHandRoomDrag :: Action
  m_optionalOverrideRightHandRoomDrag :: Action
  m_pushToTalk :: Action
  m_activeActionSet_part_001 :: VRActiveActionSet_t

definition SteamIVRInput_ctor_part_001 ::
  "'r openvr \<Rightarrow> string \<Rightarrow> input_strings_part_001 \<Rightarrow> 'r world
     \<Rightarrow> SteamIVRInput_part_001 \<times> 'r world" where
  "SteamIVRInput_ctor_part_001 vr actionManifestPath strs w0 =
     (let (manifest, w) = Manifest_ctor vr actionManifestPath w0;
          (mainSet, w) = ActionSet_ctor vr (k_setMain_part_001 strs) w;
          (nextTrack, w) = Action_ctor vr (k_actionNextTrack_part_001 strs) Digital w;
          (previousTrack, w) = Action_ctor vr (k_actionPreviousTrack_part_001 strs) Digital w;
          (pausePlayTrack, w) = Action_ctor vr (k_actionPausePlayTrack_part_001 strs) Digital w;
          (stopTrack, w) = Action_ctor vr (k_actionStopTrack_part_001 strs) Digital w;
          (leftHandRoomTurn, w) = Action_ctor vr (k_actionLeftHandRoomTurn strs) Digital w;
          (rightHandRoomTurn, w) = Action_ctor vr (k_actionRightHandRoomTurn strs) Digital w;
          (leftHandRoomDrag, w) = Action_ctor vr (k_actionLeftHandRoomDrag strs) Digital w;
          (rightHandRoomDrag, w) = Action_ctor vr (k_actionRightHandRoomDrag strs) Digital w;
          (optionalOverrideLeftHandRoomTurn, w) = Action_ctor vr (k_actionOptionalOverrideLeftHandRoomTurn strs) Digital w;
          (optionalOverrideRightHandRoomTurn, w) = Action_ctor vr (k_actionOptionalOverrideRightHandRoomTurn strs) Digital w;
          (optionalOverrideLeftHandRoomDrag, w) = Action_ctor vr (k_actionOptionalOverrideLeftHandRoomDrag strs) Digital w;
          (optionalOverrideRightHandRoomDrag, w) = Action_ctor vr (k_actionOptionalOverrideRightHandRoomDrag strs) Digital w;
          (pushToTalk, w) = Action_ctor vr (k_actionPushToTalk strs) Digital w;
          self = \<lparr>m_manifest_part_001 = manifest, m_mainSet_part_001 = mainSet,
                  m_nextTrack_part_001 = nextTrack,
                  m_previousTrack_part_001 = previousTrack,
                  m_pausePlayTrack_part_001 = pausePlayTrack,
                  m_stopTrack_part_001 = stopTrack,
                  m_leftHandRoomTurn = leftHandRoomTurn,
                  m_rightHandRoomTurn = rightHandRoomTurn,
                  m_leftHandRoomDrag = leftHandRoomDrag,
                  m_rightHandRoomDrag = rightHandRoomDrag,
                  m_optionalOverrideLeftHandRoomTurn = optionalOverrideLeftHandRoomTurn,
                  m_optionalOverrideRightHandRoomTurn = optionalOverrideRightHandRoomTurn,
                  m_optionalOverrideLeftHandRoomDrag = optionalOverrideLeftHandRoomDrag,
                  m_optionalOverrideRightHandRoomDrag = optionalOverrideRightHandRoomDrag,
                  m_pushToTalk = pushToTalk,
                  m_activeActionSet_part_001 = zero_VRActiveActionSet_t\<rparr>;
          self = self\<lparr>m_activeActionSet_part_001 :=
                   (m_activeActionSet_part_001 self)
                     \<lparr>ulActionSet := set_handle (m_mainSet_part_001 self)\<rparr>\<rparr>;
          self = self\<lparr>m_activeActionSet_part_001 :=
                   (m_activeActionSet_part_001 self)
                     \<lparr>ulRestrictedToDevice := k_ulInvalidInputValueHandle\<rparr>\<rparr>;
          self = self\<lparr>m_activeActionSet_part_001 :=
                   (m_activeActionSet_part_001 self)\<lparr>nPriority := 0\<rparr>\<rparr>
      in (self, w))"

definition nextSong_part_001 ::
  "'r openvr \<Rightarrow> SteamIVRInput_part_001 \<Rightarrow> 'r world
     \<Rightarrow> (exn + bool) \<times> SteamIVRInput_part_001 \<times> 'r world" where
  "nextSong_part_001 vr self w =
     (case isDigitalActionActivatedOnce_part_001 vr (m_nextTrack_part_001 self) w of
        (r, action, w1) \<Rightarrow> (r, self\<lparr>m_nextTrack_part_001 := action\<rparr>, w1))"

definition previousSong_part_001 ::
  "'r openvr \<Rightarrow> SteamIVRInput_part_001 \<Rightarrow> 'r world
     \<Rightarrow> (exn + bool) \<times> SteamIVRInput_part_001 \<times> 'r world" where
  "previousSong_part_001 vr self w =
     (case isDigitalActionActivatedOnce_part_001 vr (m_previousTrack_part_001 self) w of
        (r, action, w1) \<Rightarrow> (r, self\<lparr>m_previousTrack_part_001 := action\<rparr>, w1))"

definition pausePlaySong_part_001 ::
  "'r openvr \<Rightarrow> SteamIVRInput_part_001 \<Rightarrow> 'r world
     \<Rightarrow> (exn + bool) \<times> SteamIVRInput_part_001 \<times> 'r world" where
  "pausePlaySong_part_001 vr self w =
     (case isDigitalActionActivatedOnce_part_001 vr (m_pausePlayTrack_part_001 self) w of
        (r, action, w1) \<Rightarrow> (r, self\<lparr>m_pausePlayTrack_part_001 := action\<rparr>, w1))"

definition stopSong_part_001 ::
  "'r openvr \<Rightarrow> SteamIVRInput_part_001 \<Rightarrow> 'r world
     \<Rightarrow> (exn + bool) \<times> SteamIVRInput_part_001 \<times> 'r world" where
  "stopSong_part_001 vr self w =
     (case isDigitalActionActivatedOnce_part_001 vr (m_stopTrack_part_001 self) w of
        (r, action, w1) \<Rightarrow> (r, self\<lparr>m_stopTrack_part_001 := action\<rparr>, w1))"

definition leftHandRoomTurn ::
  "'r openvr \<Rightarrow> SteamIVRInput_part_001 \<Rightarrow> 'r world
     \<Rightarrow> (exn + bool) \<times> SteamIVRInput_part_001 \<times> 'r world" where
  "leftHandRoomTurn vr self w =
     (case isDigitalActionActivatedConstant_part_001 vr (m_leftHandRoomTurn self) w of
        (r, action, w1) \<Rightarrow> (r, self\<lparr>m_leftHandRoomTurn := action\<rparr>, w1))"

definition rightHandRoomTurn ::
  "'r openvr \<Rightarrow> SteamIVRInput_part_001 \<Rightarrow> 'r world
     \<Rightarrow> (exn + bool) \<times> SteamIVRInput_part_001 \<times> 'r world" where
  "rightHandRoomTurn vr self w =
     (case isDigitalActionActivatedConstant_part_001 vr (m_rightHandRoomTurn self) w of
        (r, action, w1) \<Rightarrow> (r, self\<lparr>m_rightHandRoomTurn := action\<rparr>, w1))"

definition leftHandRoomDrag ::
  "'r openvr \<Rightarrow> SteamIVRInput_part_001 \<Rightarrow> 'r world
     \<Rightarrow> (exn + bool) \<times> SteamIVRInput_part_001 \<times> 'r world" where
  "leftHandRoomDrag vr self w =
     (case isDigitalActionActivatedConstant_part_001 vr (m_leftHandRoomDrag self) w of
        (r, action, w1) \<Rightarrow> (r, self\<lparr>m_leftHandRoomDrag := action\<rparr>, w1))"

definition rightHandRoomDrag ::
  "'r openvr \<Rightarrow> SteamIVRInput_part_001 \<Rightarrow> 'r world
     \<Rightarrow> (exn + bool) \<times> SteamIVRInput_part_001 \<times> 'r world" where
  "rightHandRoomDrag vr self w =
     (case isDigitalActionActivatedConstant_part_001 vr (m_rightHandRoomDrag self) w of
        (r, action, w1) \<Rightarrow> (r, self\<lparr>m_rightHandRoomDrag := action\<rparr>, w1))"

definition optionalOverrideLeftHandRoomTurn ::
  "'r openvr \<Rightarrow> SteamIVRInput_part_001 \<Rightarrow> 'r world
     \<Rightarrow> (exn + bool) \<times> SteamIVRInput_part_001 \<times> 'r world" where
  "optionalOverrideLeftHandRoomTurn vr self w =
     (case isDigitalActionActivatedConstant_part_001 vr (m_optionalOverrideLeftHandRoomTurn self) w of
        (r, action, w1) \<Rightarrow> (r, self\<lparr>m_optionalOverrideLeftHandRoomTurn := action\<rparr>, w1))"

definition optionalOverrideRightHandRoomTurn ::
  "'r openvr \<Rightarrow> SteamIVRInput_part_001 \<Rightarrow> 'r world
     \<Rightarrow> (exn + bool) \<times> SteamIVRInput_part_001 \<times> 'r world" where
  "optionalOverrideRightHandRoomTurn vr self w =
     (case isDigitalActionActivatedConstant_part_001 vr (m_optionalOverrideRightHandRoomTurn self) w of
        (r, action, w1) \<Rightarrow> (r, self\<lparr>m_optionalOverrideRightHandRoomTurn := action\<rparr>, w1))"

definition optionalOverrideLeftHandRoomDrag ::
  "'r openvr \<Rightarrow> SteamIVRInput_part_001 \<Rightarrow> 'r world
     \<Rightarrow> (exn + bool) \<times> SteamIVRInput_part_001 \<times> 'r world" where
  "optionalOverrideLeftHandRoomDrag vr self w =
     (case isDigitalActionActivatedConstant_part_001 vr (m_optionalOverrideLeftHandRoomDrag self) w of
        (r, action, w1) \<Rightarrow> (r, self\<lparr>m_optionalOverrideLeftHandRoomDrag := action\<rparr>, w1))"

definition optionalOverrideRightHandRoomDrag ::
  "'r openvr \<Rightarrow> SteamIVRInput_part_001 \<Rightarrow> 'r world
     \<Rightarrow> (exn + bool) \<times> SteamIVRInput_part_001 \<times> 'r world" where
  "optionalOverrideRightHandRoomDrag vr self w =
     (case isDigitalActionActivatedConstant_part_001 vr (m_optionalOverrideRightHandRoomDrag self) w of
        (r, action, w1) \<Rightarrow> (r, self\<lparr>m_optionalOverrideRightHandRoomDrag := action\<rparr>, w1))"

definition pushToTalk ::
  "'r openvr \<Rightarrow> SteamIVRInput_part_001 \<Rightarrow> 'r world
     \<Rightarrow> (exn + bool) \<times> SteamIVRInput_part_001 \<times> 'r world" where
  "pushToTalk vr self w =
     (case isDigitalActionActivatedConstant_part_001 vr (m_pushToTalk self) w of
        (r, action, w1) \<Rightarrow> (r, self\<lparr>m_pushToTalk := action\<rparr>, w1))"

definition UpdateStates_part_001 ::
  "'r openvr \<Rightarrow> SteamIVRInput_part_001 \<Rightarrow> 'r world
     \<Rightarrow> (exn + unit) \<times> SteamIVRInput_part_001 \<times> 'r world" where
  "UpdateStates_part_001 vr self w =
     (let numberOfSets = 1 in
      case VRInput_UpdateActionState vr [m_activeActionSet_part_001 self]
             (sizeof_VRActiveActionSet_t vr) numberOfSets w of
        (error, sets, w1) \<Rightarrow>
          (Inr (),
           self\<lparr>m_activeActionSet_part_001 :=
                  (case sets of [] \<Rightarrow> m_activeActionSet_part_001 self | s # _ \<Rightarrow> s)\<rparr>,
           if error \<noteq> VRInputError_None
           then LOG_ERROR [Str ''Error during IVRInput action state update. OpenVR Error: '',
                           Err error] w1
           else w1))"

section \<open>Sequences of calls on an object\<close>

text \<open>
  The application calls the public member functions of a \<^verbatim>\<open>SteamIVRInput\<close> object in
  any order. A call is named by a constructor of \<open>member_function\<close>; \<open>invoke\<close> dispatches it;
  \<open>run\<close> makes the calls of a list one after the other, each on the object and the
  world the previous one left (an exception leaves both as they are when it is thrown,
  and the application may go on calling).
\<close>

datatype retval = Bool bool | Void

definition returned ::
  "('a \<Rightarrow> retval) \<Rightarrow> (exn + 'a) \<times> 's \<times> 'w \<Rightarrow> (exn + retval) \<times> 's \<times> 'w" where
  "returned f res = (case res of (r, self, w) \<Rightarrow> (map_sum id f r, self, w))"

datatype member_function =
    M_nextSong | M_previousSong | M_pausePlaySong | M_stopSong
  | M_leftHandPlayspaceRotate
  | M_rightHandPlayspaceRotate
  | M_leftHandPlayspaceMove
  | M_rightHandPlayspaceMove
  | M_optionalOverrideLeftHandPlayspaceRotate
  | M_optionalOverrideRightHandPlayspaceRotate
  | M_optionalOverrideLeftHandPlayspaceMove
  | M_optionalOverrideRightHandPlayspaceMove
  | M_UpdateStates

fun invoke ::
  "'r openvr \<Rightarrow> member_function \<Rightarrow> SteamIVRInput \<Rightarrow> 'r world
     \<Rightarrow> (exn + retval) \<times> SteamIVRInput \<times> 'r world" where
  "invoke vr M_nextSong self w = returned Bool (nextSong vr self w)"
| "invoke vr M_previousSong self w = returned Bool (previousSong vr self w)"
| "invoke vr M_pausePlaySong self w = returned Bool (pausePlaySong vr self w)"
| "invoke vr M_stopSong self w = returned Bool (stopSong vr self w)"
| "invoke vr M_leftHandPlayspaceRotate self w = returned Bool (leftHandPlayspaceRotate vr self w)"
| "invoke vr M_rightHandPlayspaceRotate self w = returned Bool (rightHandPlayspaceRotate vr self w)"
| "invoke vr M_leftHandPlayspaceMove self w = returned Bool (leftHandPlayspaceMove vr self w)"
| "invoke vr M_rightHandPlayspaceMove self w = returned Bool (rightHandPlayspaceMove vr self w)"
| "invoke vr M_optionalOverrideLeftHandPlayspaceRotate self w = returned Bool (optionalOverrideLeftHandPlayspaceRotate vr self w)"
| "invoke vr M_optionalOverrideRightHandPlayspaceRotate self w = returned Bool (optionalOverrideRightHandPlayspaceRotate vr self w)"
| "invoke vr M_optionalOverrideLeftHandPlayspaceMove self w = returned Bool (optionalOverrideLeftHandPlayspaceMove vr self w)"
| "invoke vr M_optionalOverrideRightHandPlayspaceMove self w = returned Bool (optionalOverrideRightHandPlayspaceMove vr self w)"
| "invoke vr M_UpdateStates self w = returned (\<lambda>_. Void) (UpdateStates vr self w)"

fun run ::
  "'r openvr \<Rightarrow> member_function list \<Rightarrow> SteamIVRInput \<times> 'r world \<Rightarrow> SteamIVRInput \<times> 'r world" where
  "run vr [] s = s"
| "run vr (m # ms) s = run vr ms (snd (invoke vr m (fst s) (snd s)))"

datatype member_function_part_001 =
    P_nextSong | P_previousSong | P_pausePlaySong | P_stopSong
  | P_leftHandRoomTurn
  | P_rightHandRoomTurn
  | P_leftHandRoomDrag
  | P_rightHandRoomDrag
  | P_optionalOverrideLeftHandRoomTurn
  | P_optionalOverrideRightHandRoomTurn
  | P_optionalOverrideLeftHandRoomDrag
  | P_optionalOverrideRightHandRoomDrag
  | P_pushToTalk
  | P_UpdateStates

fun invoke_part_001 ::
  "'r openvr \<Rightarrow> member_function_part_001 \<Rightarrow> SteamIVRInput_part_001 \<Rightarrow> 'r world
     \<Rightarrow> (exn + retval) \<times> SteamIVRInput_part_001 \<times> 'r world" where
  "invoke_part_001 vr P_nextSong self w = returned Bool (nextSong_part_001 vr self w)"
| "invoke_part_001 vr P_previousSong self w = returned Bool (previousSong_part_001 vr self w)"
| "invoke_part_001 vr P_pausePlaySong self w = returned Bool (pausePlaySong_part_001 vr self w)"
| "invoke_part_001 vr P_stopSong self w = returned Bool (stopSong_part_001 vr self w)"
| "invoke_part_001 vr P_leftHandRoomTurn self w = returned Bool (leftHandRoomTurn vr self w)"
| "invoke_part_001 vr P_rightHandRoomTurn self w = returned Bool (rightHandRoomTurn vr self w)"
| "invoke_part_001 vr P_leftHandRoomDrag self w = returned Bool (leftHandRoomDrag vr self w)"
| "invoke_part_001 vr P_rightHandRoomDrag self w = returned Bool (rightHandRoomDrag vr self w)"
| "invoke_part_001 vr P_optionalOverrideLeftHandRoomTurn self w = returned Bool (optionalOverrideLeftHandRoomTurn vr self w)"
| "invoke_part_001 vr P_optionalOverrideRightHandRoomTurn self w = returned Bool (optionalOverrideRightHandRoomTurn vr self w)"
| "invoke_part_001 vr P_optionalOverrideLeftHandRoomDrag self w = returned Bool (optionalOverrideLeftHandRoomDrag vr self w)"
| "invoke_part_001 vr P_optionalOverrideRightHandRoomDrag self w = returned Bool (optionalOverrideRightHandRoomDrag vr self w)"
| "invoke_part_001 vr P_pushToTalk self w = returned Bool (pushToTalk vr self w)"
| "invoke_part_001 vr P_UpdateStates self w =
     returned (\<lambda>_. Void) (UpdateStates_part_001 vr self w)"

fun run_part_001 ::
  "'r openvr \<Rightarrow> member_function_part_001 list \<Rightarrow> SteamIVRInput_part_001 \<times> 'r world
     \<Rightarrow> SteamIVRInput_part_001 \<times> 'r world" where
  "run_part_001 vr [] s = s"
| "run_part_001 vr (m # ms) s = run_part_001 vr ms (snd (invoke_part_001 vr m (fst s) (snd s)))"

text \<open>The descriptor arrays handed to \<^verbatim>\<open>UpdateActionState\<close> in a trace of calls, in
  order, each with the size and the count passed along.\<close>

fun UpdateActionState_args :: "call list \<Rightarrow> (VRActiveActionSet_t list \<times> nat \<times> nat) list" where
  "UpdateActionState_args [] = []"
| "UpdateActionState_args (Call_UpdateActionState pSets sz n # cs) =
     (pSets, sz, n) # UpdateActionState_args cs"
| "UpdateActionState_args (c # cs) = UpdateActionState_args cs"

text \<open>The member actions of an object, in the order of the initialiser list.\<close>

definition actions :: "SteamIVRInput \<Rightarrow> Action list" where
  "actions self =
     [m_nextTrack self,
      m_previousTrack self,
      m_pausePlayTrack self,
      m_stopTrack self,
      m_leftHandPlayspaceRotate self,
      m_rightHandPlayspaceRotate self,
      m_leftHandPlayspaceMove self,
      m_rightHandPlayspaceMove self,
      m_optionalOverrideLeftHandPlayspaceRotate self,
      m_optionalOverrideRightHandPlayspaceRotate self,
      m_optionalOverrideLeftHandPlayspaceMove self,
      m_optionalOverrideRightHandPlayspaceMove self]"

definition actions_part_001 :: "SteamIVRInput_part_001 \<Rightarrow> Action list" where
  "actions_part_001 self =
     [m_nextTrack_part_001 self,
      m_previousTrack_part_001 self,
      m_pausePlayTrack_part_001 self,
      m_stopTrack_part_001 self,
      m_leftHandRoomTurn self,
      m_rightHandRoomTurn self,
      m_leftHandRoomDrag self,
      m_rightHandRoomDrag self,
      m_optionalOverrideLeftHandRoomTurn self,
      m_optionalOverrideRightHandRoomTurn self,
      m_optionalOverrideLeftHandRoomDrag self,
      m_optionalOverrideRightHandRoomDrag self,
      m_pushToTalk self]"

section \<open>Concrete inputs\<close>

text \<open>
  A runtime to evaluate the operations on: its state counts the calls it has served,
  every call answers with the error code \<open>e\<close>, a handle is resolved to the length of
  the name, \<^verbatim>\<open>GetDigitalActionData\<close> applies \<open>wr\<close> to the buffer it is given
  (\<open>id\<close> leaves the buffer as the caller prepared it), and the other buffers and the
  descriptor array are left as they are handed over.
\<close>

definition example_vr ::
  "EVRInputError \<Rightarrow> (InputDigitalActionData_t \<Rightarrow> InputDigitalActionData_t) \<Rightarrow> nat openvr" where
  "example_vr e wr =
     \<lparr>sizeof_InputDigitalActionData_t = 28,
      sizeof_InputAnalogActionData_t = 40,
      sizeof_VRActiveActionSet_t = 32,
      SetActionManifestPath = (\<lambda>path r. (e, Suc r)),
      GetActionSetHandle = (\<lambda>n r. (e, of_nat (length n), Suc r)),
      GetActionHandle = (\<lambda>n r. (e, of_nat (length n), Suc r)),
      GetDigitalActionData = (\<lambda>h d sz dev r. (e, wr d, Suc r)),
      GetAnalogActionData = (\<lambda>h d sz dev r. (e, d, Suc r)),
      UpdateActionState = (\<lambda>sets sz n r. (e, sets, Suc r))\<rparr>"

text \<open>A runtime that answers every call with success and, in \<^verbatim>\<open>UpdateActionState\<close>,
  writes a device restriction and a priority into every descriptor it is handed.\<close>

definition writing_vr :: "nat openvr" where
  "writing_vr =
     (example_vr 0 id)
       \<lparr>UpdateActionState :=
          (\<lambda>sets sz n r.
             (0, map (\<lambda>s. s\<lparr>ulRestrictedToDevice := 77, nPriority := 5\<rparr>) sets, Suc r))\<rparr>"

definition write_state :: "bool \<Rightarrow> bool \<Rightarrow> InputDigitalActionData_t \<Rightarrow> InputDigitalActionData_t" where
  "write_state pressed changed d = d\<lparr>bActive := True, bState := pressed, bChanged := changed\<rparr>"

definition example_world :: "nat world" where
  "example_world = \<lparr>runtime = 0, errlog = [], calls = []\<rparr>"

definition example_digital :: Action where
  "example_digital = \<lparr>name = ''/actions/main/in/NextTrack'', type = Digital, handle = 7\<rparr>"

definition example_analog :: Action where
  "example_analog = \<lparr>name = ''/actions/main/in/Trigger'', type = Analog, handle = 9\<rparr>"

definition example_strings :: input_strings where
  "example_strings =
     \<lparr>k_setMain = ''/actions/main'',
      k_actionNextTrack = ''/actions/main/in/NextTrack'',
      k_actionPreviousTrack = ''/actions/main/in/PreviousTrack'',
      k_actionPausePlayTrack = ''/actions/main/in/PausePlayTrack'',
      k_actionStopTrack = ''/actions/main/in/StopTrack'',
      k_actionLeftHandPlayspaceRotate = ''/actions/main/in/LeftHandPlayspaceRotate'',
      k_actionRightHandPlayspaceRotate = ''/actions/main/in/RightHandPlayspaceRotate'',
      k_actionLeftHandPlayspaceMove = ''/actions/main/in/LeftHandPlayspaceMove'',
      k_actionRightHandPlayspaceMove = ''/actions/main/in/RightHandPlayspaceMove'',
      k_actionOptionalOverrideLeftHandPlayspaceRotate = ''/actions/main/in/OptionalOverrideLeftHandPlayspaceRotate'',
      k_actionOptionalOverrideRightHandPlayspaceRotate = ''/actions/main/in/OptionalOverrideRightHandPlayspaceRotate'',
      k_actionOptionalOverrideLeftHandPlayspaceMove = ''/actions/main/in/OptionalOverrideLeftHandPlayspaceMove'',
      k_actionOptionalOverrideRightHandPlayspaceMove = ''/actions/main/in/OptionalOverrideRightHandPlayspaceMove''\<rparr>"

definition example_strings_part_001 :: input_strings_part_001 where
  "example_strings_part_001 =
     \<lparr>k_setMain_part_001 = ''/actions/main'',
      k_actionNextTrack_part_001 = ''/actions/main/in/NextTrack'',
      k_actionPreviousTrack_part_001 = ''/actions/main/in/PreviousTrack'',
      k_actionPausePlayTrack_part_001 = ''/actions/main/in/PausePlayTrack'',
      k_actionStopTrack_part_001 = ''/actions/main/in/StopTrack'',
      k_actionLeftHandRoomTurn = ''/actions/main/in/LeftHandRoomTurn'',
      k_actionRightHandRoomTurn = ''/actions/main/in/RightHandRoomTurn'',
      k_actionLeftHandRoomDrag = ''/actions/main/in/LeftHandRoomDrag'',
      k_actionRightHandRoomDrag = ''/actions/main/in/RightHandRoomDrag'',
      k_actionOptionalOverrideLeftHandRoomTurn = ''/actions/main/in/OptionalOverrideLeftHandRoomTurn'',
      k_actionOptionalOverrideRightHandRoomTurn = ''/actions/main/in/OptionalOverrideRightHandRoomTurn'',
      k_actionOptionalOverrideLeftHandRoomDrag = ''/actions/main/in/OptionalOverrideLeftHandRoomDrag'',
      k_actionOptionalOverrideRightHandRoomDrag = ''/actions/main/in/OptionalOverrideRightHandRoomDrag'',
      k_actionPushToTalk = ''/actions/main/in/PushToTalk''\<rparr>"

text \<open>An object of each version, as its constructor makes it at a runtime that reports
  no error.\<close>

definition example_self :: SteamIVRInput where
  "example_self =
     fst (SteamIVRInput_ctor (example_vr 0 id) ''action_manifest.json'' example_strings
            example_world)"

definition example_self_part_001 :: SteamIVRInput_part_001 where
  "example_self_part_001 =
     fst (SteamIVRInput_ctor_part_001 (example_vr 0 id) ''action_manifest.json''
            example_strings_part_001 example_world)"

section \<open>What the accessors compute\<close>

lemma UpdateActionState_args_append:
  "UpdateActionState_args (cs @ ds) = UpdateActionState_args cs @ UpdateActionState_args ds"
  by (induction cs rule: UpdateActionState_args.induct) simp_all

lemma LOG_ERROR_fields:
  "runtime (LOG_ERROR line w) = runtime w"
  "calls (LOG_ERROR line w) = calls w"
  "errlog (LOG_ERROR line w) = errlog w @ [line]"
  by (simp_all add: LOG_ERROR_def)

lemma Action_ctor_type: "type (fst (Action_ctor vr actionName t w)) = t"
  by (simp add: Action_ctor_def case_prod_beta)

lemma getDigitalActionData_digital:
  assumes "type action = Digital"
      and "GetDigitalActionData vr (handle action) zero_InputDigitalActionData_t
             (sizeof_InputDigitalActionData_t vr) k_ulInvalidInputValueHandle (runtime w)
           = (error, d, r)"
  shows "getDigitalActionData vr action w =
           (Inr d, action,
            w\<lparr>runtime := r,
              errlog := (if error \<noteq> VRInputError_None
                         then errlog w
                           @ [[Str ''Error getting IVRInput Digital Action Data for handle '',
                               Str (name action), Str ''. SteamVR Error: '', Err error]]
                         else errlog w),
              calls := calls w
                @ [Call_GetDigitalActionData (handle action)
                     (sizeof_InputDigitalActionData_t vr) k_ulInvalidInputValueHandle]\<rparr>)"
  using assms
  by (simp add: getDigitalActionData_def VRInput_GetDigitalActionData_def LOG_ERROR_def)

lemma getDigitalActionData_mismatch:
  assumes "type action \<noteq> Digital"
  shows "getDigitalActionData vr action w =
           (Inl (runtime_error
              (''Action was passed to IVRInput getDigitalActionData without being ''
               @ ''a digital type. See log for details.'')),
            action,
            w\<lparr>errlog := errlog w
              @ [[Str (''Action was passed to IVRInput getDigitalActionData without ''
                       @ ''being a digital type. Action: ''),
                  Str (name action)]]\<rparr>)"
  using assms by (simp add: getDigitalActionData_def LOG_ERROR_def)

lemma getDigitalActionData_action:
  "fst (snd (getDigitalActionData vr action w)) = action"
  by (simp add: getDigitalActionData_def case_prod_beta)

lemma getDigitalActionData_args:
  "UpdateActionState_args (calls (snd (snd (getDigitalActionData vr action w))))
     = UpdateActionState_args (calls w)"
  by (simp add: getDigitalActionData_def VRInput_GetDigitalActionData_def
        LOG_ERROR_fields UpdateActionState_args_append case_prod_beta)

lemma getDigitalActionData_result:
  "type action = Digital \<Longrightarrow> \<exists>d. fst (getDigitalActionData vr action w) = Inr d"
  by (simp add: getDigitalActionData_def case_prod_beta)

lemma isDigitalActionActivatedOnce_eq:
  "isDigitalActionActivatedOnce vr action w =
     (map_sum id (\<lambda>d. bState d \<and> bChanged d) (fst (getDigitalActionData vr action w)),
      action, snd (snd (getDigitalActionData vr action w)))"
proof (cases "getDigitalActionData vr action w")
  case (fields r a w1)
  with getDigitalActionData_action [of vr action w] have "a = action"
    by simp
  with fields show ?thesis
    by (cases r) (simp_all add: isDigitalActionActivatedOnce_def)
qed

lemma isDigitalActionActivatedConstant_eq:
  "isDigitalActionActivatedConstant vr action w =
     (map_sum id bState (fst (getDigitalActionData vr action w)),
      action, snd (snd (getDigitalActionData vr action w)))"
proof (cases "getDigitalActionData vr action w")
  case (fields r a w1)
  with getDigitalActionData_action [of vr action w] have "a = action"
    by simp
  with fields show ?thesis
    by (cases r) (simp_all add: isDigitalActionActivatedConstant_def)
qed

lemma getDigitalActionData_part_001_digital:
  assumes "type action = Digital"
      and "GetDigitalActionData vr (handle action) zero_InputDigitalActionData_t
             (sizeof_InputDigitalActionData_t vr) k_ulInvalidInputValueHandle (runtime w)
           = (error, d, r)"
  shows "getDigitalActionData_part_001 vr action w =
           (Inr d, action,
            w\<lparr>runtime := r,
              errlog := (if error \<noteq> VRInputError_None
                         then errlog w
                           @ [[Str ''Error getting IVRInput Digital Action Data for handle '',
                               Str (name action), Str ''. SteamVR Error: '', Err error]]
                         else errlog w),
              calls := calls w
                @ [Call_GetDigitalActionData (handle action)
                     (sizeof_InputDigitalActionData_t vr) k_ulInvalidInputValueHandle]\<rparr>)"
  using assms
  by (simp add: getDigitalActionData_part_001_def VRInput_GetDigitalActionData_def LOG_ERROR_def)

lemma getDigitalActionData_part_001_mismatch:
  assumes "type action \<noteq> Digital"
  shows "getDigitalActionData_part_001 vr action w =
           (Inl (runtime_error
              (''Action was passed to IVRInput getDigitalActionData without being ''
               @ ''a digital type. See log for details.'')),
            action,
            w\<lparr>errlog := errlog w
              @ [[Str (''Action was passed to IVRInput getDigitalActionData without ''
                       @ ''being a digital type. Action: ''),
                  Str (name action)]]\<rparr>)"
  using assms by (simp add: getDigitalActionData_part_001_def LOG_ERROR_def)

lemma getDigitalActionData_part_001_action:
  "fst (snd (getDigitalActionData_part_001 vr action w)) = action"
  by (simp add: getDigitalActionData_part_001_def case_prod_beta)

lemma getDigitalActionData_part_001_args:
  "UpdateActionState_args (calls (snd (snd (getDigitalActionData_part_001 vr action w))))
     = UpdateActionState_args (calls w)"
  by (simp add: getDigitalActionData_part_001_def VRInput_GetDigitalActionData_def
        LOG_ERROR_fields UpdateActionState_args_append case_prod_beta)

lemma getDigitalActionData_part_001_result:
  "type action = Digital \<Longrightarrow> \<exists>d. fst (getDigitalActionData_part_001 vr action w) = Inr d"
  by (simp add: getDigitalActionData_part_001_def case_prod_beta)

lemma isDigitalActionActivatedOnce_part_001_eq:
  "isDigitalActionActivatedOnce_part_001 vr action w =
     (map_sum id (\<lambda>d. bState d \<and> bChanged d) (fst (getDigitalActionData_part_001 vr action w)),
      action, snd (snd (getDigitalActionData_part_001 vr action w)))"
proof (cases "getDigitalActionData_part_001 vr action w")
  case (fields r a w1)
  with getDigitalActionData_part_001_action [of vr action w] have "a = action"
    by simp
  with fields show ?thesis
    by (cases r) (simp_all add: isDigitalActionActivatedOnce_part_001_def)
qed

lemma isDigitalActionActivatedConstant_part_001_eq:
  "isDigitalActionActivatedConstant_part_001 vr action w =
     (map_sum id bState (fst (getDigitalActionData_part_001 vr action w)),
      action, snd (snd (getDigitalActionData_part_001 vr action w)))"
proof (cases "getDigitalActionData_part_001 vr action w")
  case (fields r a w1)
  with getDigitalActionData_part_001_action [of vr action w] have "a = action"
    by simp
  with fields show ?thesis
    by (cases r) (simp_all add: isDigitalActionActivatedConstant_part_001_def)
qed

lemma getAnalogActionData_analog:
  assumes "type action = Analog"
      and "GetAnalogActionData vr (handle action) zero_InputAnalogActionData_t
             (sizeof_InputAnalogActionData_t vr) k_ulInvalidInputValueHandle (runtime w)
           = (error, d, r)"
  shows "getAnalogActionData vr action w =
           (Inr d, action,
            w\<lparr>runtime := r,
              errlog := (if error \<noteq> VRInputError_None
                         then errlog w
                           @ [[Str ''Error getting IVRInput Digital Action Data for handle '',
                               Str (name action), Str ''. SteamVR Error: '', Err error]]
                         else errlog w),
              calls := calls w
                @ [Call_GetAnalogActionData (handle action)
                     (sizeof_InputAnalogActionData_t vr) k_ulInvalidInputValueHandle]\<rparr>)"
  using assms
  by (simp add: getAnalogActionData_def VRInput_GetAnalogActionData_def LOG_ERROR_def)

lemma getAnalogActionData_mismatch:
  assumes "type action \<noteq> Analog"
  shows "getAnalogActionData vr action w =
           (Inl (runtime_error
              (''Action was passed to IVRInput getAnalogActionData without being ''
               @ ''an analog type. See log for details.'')),
            action,
            w\<lparr>errlog := errlog w
              @ [[Str (''Action was passed to IVRInput getAnalogActionData without ''
                       @ ''being an analog type. Action: ''),
                  Str (name action)]]\<rparr>)"
  using assms by (simp add: getAnalogActionData_def LOG_ERROR_def)

lemma getAnalogActionData_action:
  "fst (snd (getAnalogActionData vr action w)) = action"
  by (simp add: getAnalogActionData_def case_prod_beta)

section \<open>What the member functions compute\<close>

lemma nextSong_eq:
  "nextSong vr self w =
     (fst (isDigitalActionActivatedOnce vr (m_nextTrack self) w), self,
      snd (snd (getDigitalActionData vr (m_nextTrack self) w)))"
  by (simp add: nextSong_def isDigitalActionActivatedOnce_eq)

lemma previousSong_eq:
  "previousSong vr self w =
     (fst (isDigitalActionActivatedOnce vr (m_previousTrack self) w), self,
      snd (snd (getDigitalActionData vr (m_previousTrack self) w)))"
  by (simp add: previousSong_def isDigitalActionActivatedOnce_eq)

lemma pausePlaySong_eq:
  "pausePlaySong vr self w =
     (fst (isDigitalActionActivatedOnce vr (m_pausePlayTrack self) w), self,
      snd (snd (getDigitalActionData vr (m_pausePlayTrack self) w)))"
  by (simp add: pausePlaySong_def isDigitalActionActivatedOnce_eq)

lemma stopSong_eq:
  "stopSong vr self w =
     (fst (isDigitalActionActivatedOnce vr (m_stopTrack self) w), self,
      snd (snd (getDigitalActionData vr (m_stopTrack self) w)))"
  by (simp add: stopSong_def isDigitalActionActivatedOnce_eq)

lemma leftHandPlayspaceRotate_eq:
  "leftHandPlayspaceRotate vr self w =
     (fst (isDigitalActionActivatedConstant vr (m_leftHandPlayspaceRotate self) w), self,
      snd (snd (getDigitalActionData vr (m_leftHandPlayspaceRotate self) w)))"
  by (simp add: leftHandPlayspaceRotate_def isDigitalActionActivatedConstant_eq)

lemma rightHandPlayspaceRotate_eq:
  "rightHandPlayspaceRotate vr self w =
     (fst (isDigitalActionActivatedConstant vr (m_rightHandPlayspaceRotate self) w), self,
      snd (snd (getDigitalActionData vr (m_rightHandPlayspaceRotate self) w)))"
  by (simp add: rightHandPlayspaceRotate_def isDigitalActionActivatedConstant_eq)

lemma leftHandPlayspaceMove_eq:
  "leftHandPlayspaceMove vr self w =
     (fst (isDigitalActionActivatedConstant vr (m_leftHandPlayspaceMove self) w), self,
      snd (snd (getDigitalActionData vr (m_leftHandPlayspaceMove self) w)))"
  by (simp add: leftHandPlayspaceMove_def isDigitalActionActivatedConstant_eq)

lemma rightHandPlayspaceMove_eq:
  "rightHandPlayspaceMove vr self w =
     (fst (isDigitalActionActivatedConstant vr (m_rightHandPlayspaceMove self) w), self,
      snd (snd (getDigitalActionData vr (m_rightHandPlayspaceMove self) w)))"
  by (simp add: rightHandPlayspaceMove_def isDigitalActionActivatedConstant_eq)

lemma optionalOverrideLeftHandPlayspaceRotate_eq:
  "optionalOverrideLeftHandPlayspaceRotate vr self w =
     (fst (isDigitalActionActivatedConstant vr (m_optionalOverrideLeftHandPlayspaceRotate self) w), self,
      snd (snd (getDigitalActionData vr (m_optionalOverrideLeftHandPlayspaceRotate self) w)))"
  by (simp add: optionalOverrideLeftHandPlayspaceRotate_def isDigitalActionActivatedConstant_eq)

lemma optionalOverrideRightHandPlayspaceRotate_eq:
  "optionalOverrideRightHandPlayspaceRotate vr self w =
     (fst (isDigitalActionActivatedConstant vr (m_optionalOverrideRightHandPlayspaceRotate self) w), self,
      snd (snd (getDigitalActionData vr (m_optionalOverrideRightHandPlayspaceRotate self) w)))"
  by (simp add: optionalOverrideRightHandPlayspaceRotate_def isDigitalActionActivatedConstant_eq)

lemma optionalOverrideLeftHandPlayspaceMove_eq:
  "optionalOverrideLeftHandPlayspaceMove vr self w =
     (fst (isDigitalActionActivatedConstant vr (m_optionalOverrideLeftHandPlayspaceMove self) w), self,
      snd (snd (getDigitalActionData vr (m_optionalOverrideLeftHandPlayspaceMove self) w)))"
  by (simp add: optionalOverrideLeftHandPlayspaceMove_def isDigitalActionActivatedConstant_eq)

lemma optionalOverrideRightHandPlayspaceMove_eq:
  "optionalOverrideRightHandPlayspaceMove vr self w =
     (fst (isDigitalActionActivatedConstant vr (m_optionalOverrideRightHandPlayspaceMove self) w), self,
      snd (snd (getDigitalActionData vr (m_optionalOverrideRightHandPlayspaceMove self) w)))"
  by (simp add: optionalOverrideRightHandPlayspaceMove_def isDigitalActionActivatedConstant_eq)

lemmas member_eqs =
  nextSong_eq previousSong_eq pausePlaySong_eq
  stopSong_eq leftHandPlayspaceRotate_eq rightHandPlayspaceRotate_eq
  leftHandPlayspaceMove_eq rightHandPlayspaceMove_eq optionalOverrideLeftHandPlayspaceRotate_eq
  optionalOverrideRightHandPlayspaceRotate_eq optionalOverrideLeftHandPlayspaceMove_eq optionalOverrideRightHandPlayspaceMove_eq


lemma UpdateStates_actions:
  "actions (fst (snd (UpdateStates vr self w))) = actions self"
  by (simp add: UpdateStates_def actions_def case_prod_beta)

lemma UpdateStates_descriptor:
  assumes "\<forall>s r. fst (snd (UpdateActionState vr [s] (sizeof_VRActiveActionSet_t vr) 1 r)) = [s]"
  shows "fst (snd (UpdateStates vr self w)) = self"
  using assms
  by (simp add: UpdateStates_def VRInput_UpdateActionState_def case_prod_beta)

lemma UpdateStates_args:
  "UpdateActionState_args (calls (snd (snd (UpdateStates vr self w))))
     = UpdateActionState_args (calls w)
       @ [([m_activeActionSet self], sizeof_VRActiveActionSet_t vr, 1)]"
  by (simp add: UpdateStates_def VRInput_UpdateActionState_def LOG_ERROR_fields
        UpdateActionState_args_append case_prod_beta)

lemma invoke_query:
  "m \<noteq> M_UpdateStates \<Longrightarrow> fst (snd (invoke vr m self w)) = self"
  by (cases m) (simp_all add: returned_def member_eqs)

lemma invoke_actions:
  "actions (fst (snd (invoke vr m self w))) = actions self"
  by (cases m) (simp_all add: returned_def member_eqs UpdateStates_actions case_prod_beta)

lemma invoke_self:
  assumes "\<forall>s r. fst (snd (UpdateActionState vr [s] (sizeof_VRActiveActionSet_t vr) 1 r)) = [s]"
  shows "fst (snd (invoke vr m self w)) = self"
  by (cases m)
    (simp_all add: returned_def member_eqs UpdateStates_descriptor [OF assms]
       case_prod_beta)

lemma invoke_args:
  "UpdateActionState_args (calls (snd (snd (invoke vr m self w))))
     = UpdateActionState_args (calls w)
       @ (if m = M_UpdateStates
          then [([m_activeActionSet self], sizeof_VRActiveActionSet_t vr, 1)] else [])"
proof (cases m)
  case M_UpdateStates
  with UpdateStates_args [of vr self w] show ?thesis
    by (simp add: returned_def case_prod_beta)
qed (simp_all add: returned_def member_eqs getDigitalActionData_args)

lemma run_actions: "actions (fst (run vr ms s)) = actions (fst s)"
  by (induction ms arbitrary: s) (simp_all add: invoke_actions)

lemma run_self:
  assumes "\<forall>s r. fst (snd (UpdateActionState vr [s] (sizeof_VRActiveActionSet_t vr) 1 r)) = [s]"
  shows "fst (run vr ms s) = fst s"
  by (induction ms arbitrary: s) (simp_all add: invoke_self [OF assms])

lemma run_args:
  assumes "\<forall>s r. fst (snd (UpdateActionState vr [s] (sizeof_VRActiveActionSet_t vr) 1 r)) = [s]"
  shows "UpdateActionState_args (calls (snd (run vr ms s)))
     = UpdateActionState_args (calls (snd s))
       @ replicate (count_list ms M_UpdateStates)
           ([m_activeActionSet (fst s)], sizeof_VRActiveActionSet_t vr, 1)"
proof (induction ms arbitrary: s)
  case Nil
  show ?case by simp
next
  case (Cons m ms)
  show ?case
    by (simp add: Cons.IH invoke_self [OF assms] invoke_args replicate_app_Cons_same)
qed

lemma invoke_digital:
  assumes "list_all (\<lambda>a. type a = Digital) (actions self)"
  shows "\<exists>v. fst (invoke vr m self w) = Inr v"
proof (cases m)
  case M_UpdateStates
  then show ?thesis
    by (simp add: returned_def UpdateStates_def case_prod_beta)
next
  case M_nextSong
  with getDigitalActionData_result [of "m_nextTrack self" vr w] assms show ?thesis
    by (auto simp add: returned_def nextSong_eq isDigitalActionActivatedOnce_eq actions_def)
next
  case M_previousSong
  with getDigitalActionData_result [of "m_previousTrack self" vr w] assms show ?thesis
    by (auto simp add: returned_def previousSong_eq isDigitalActionActivatedOnce_eq actions_def)
next
  case M_pausePlaySong
  with getDigitalActionData_result [of "m_pausePlayTrack self" vr w] assms show ?thesis
    by (auto simp add: returned_def pausePlaySong_eq isDigitalActionActivatedOnce_eq actions_def)
next
  case M_stopSong
  with getDigitalActionData_result [of "m_stopTrack self" vr w] assms show ?thesis
    by (auto simp add: returned_def stopSong_eq isDigitalActionActivatedOnce_eq actions_def)
next
  case M_leftHandPlayspaceRotate
  with getDigitalActionData_result [of "m_leftHandPlayspaceRotate self" vr w] assms show ?thesis
    by (auto simp add: returned_def leftHandPlayspaceRotate_eq isDigitalActionActivatedConstant_eq actions_def)
next
  case M_rightHandPlayspaceRotate
  with getDigitalActionData_result [of "m_rightHandPlayspaceRotate self" vr w] assms show ?thesis
    by (auto simp add: returned_def rightHandPlayspaceRotate_eq isDigitalActionActivatedConstant_eq actions_def)
next
  case M_leftHandPlayspaceMove
  with getDigitalActionData_result [of "m_leftHandPlayspaceMove self" vr w] assms show ?thesis
    by (auto simp add: returned_def leftHandPlayspaceMove_eq isDigitalActionActivatedConstant_eq actions_def)
next
  case M_rightHandPlayspaceMove
  with getDigitalActionData_result [of "m_rightHandPlayspaceMove self" vr w] assms show ?thesis
    by (auto simp add: returned_def rightHandPlayspaceMove_eq isDigitalActionActivatedConstant_eq actions_def)
next
  case M_optionalOverrideLeftHandPlayspaceRotate
  with getDigitalActionData_result [of "m_optionalOverrideLeftHandPlayspaceRotate self" vr w] assms show ?thesis
    by (auto simp add: returned_def optionalOverrideLeftHandPlayspaceRotate_eq isDigitalActionActivatedConstant_eq actions_def)
next
  case M_optionalOverrideRightHandPlayspaceRotate
  with getDigitalActionData_result [of "m_optionalOverrideRightHandPlayspaceRotate self" vr w] assms show ?thesis
    by (auto simp add: returned_def optionalOverrideRightHandPlayspaceRotate_eq isDigitalActionActivatedConstant_eq actions_def)
next
  case M_optionalOverrideLeftHandPlayspaceMove
  with getDigitalActionData_result [of "m_optionalOverrideLeftHandPlayspaceMove self" vr w] assms show ?thesis
    by (auto simp add: returned_def optionalOverrideLeftHandPlayspaceMove_eq isDigitalActionActivatedConstant_eq actions_def)
next
  case M_optionalOverrideRightHandPlayspaceMove
  with getDigitalActionData_result [of "m_optionalOverrideRightHandPlayspaceMove self" vr w] assms show ?thesis
    by (auto simp add: returned_def optionalOverrideRightHandPlayspaceMove_eq isDigitalActionActivatedConstant_eq actions_def)
qed

lemma SteamIVRInput_ctor_digital:
  "list_all (\<lambda>a. type a = Digital)
     (actions (fst (SteamIVRInput_ctor vr actionManifestPath strs w)))"
  by (simp add: SteamIVRInput_ctor_def actions_def Let_def case_prod_beta Action_ctor_type)

lemma SteamIVRInput_ctor_activeActionSet:
  "m_activeActionSet (fst (SteamIVRInput_ctor vr actionManifestPath strs w)) =
     \<lparr>ulActionSet =
        set_handle (m_mainSet (fst (SteamIVRInput_ctor vr actionManifestPath strs w))),
      ulRestrictedToDevice = k_ulInvalidInputValueHandle,
      nPriority = 0\<rparr>"
  by (simp add: SteamIVRInput_ctor_def Let_def case_prod_beta zero_VRActiveActionSet_t_def)

lemma nextSong_part_001_eq:
  "nextSong_part_001 vr self w =
     (fst (isDigitalActionActivatedOnce_part_001 vr (m_nextTrack_part_001 self) w), self,
      snd (snd (getDigitalActionData_part_001 vr (m_nextTrack_part_001 self) w)))"
  by (simp add: nextSong_part_001_def isDigitalActionActivatedOnce_part_001_eq)

lemma previousSong_part_001_eq:
  "previousSong_part_001 vr self w =
     (fst (isDigitalActionActivatedOnce_part_001 vr (m_previousTrack_part_001 self) w), self,
      snd (snd (getDigitalActionData_part_001 vr (m_previousTrack_part_001 self) w)))"
  by (simp add: previousSong_part_001_def isDigitalActionActivatedOnce_part_001_eq)

lemma pausePlaySong_part_001_eq:
  "pausePlaySong_part_001 vr self w =
     (fst (isDigitalActionActivatedOnce_part_001 vr (m_pausePlayTrack_part_001 self) w), self,
      snd (snd (getDigitalActionData_part_001 vr (m_pausePlayTrack_part_001 self) w)))"
  by (simp add: pausePlaySong_part_001_def isDigitalActionActivatedOnce_part_001_eq)

lemma stopSong_part_001_eq:
  "stopSong_part_001 vr self w =
     (fst (isDigitalActionActivatedOnce_part_001 vr (m_stopTrack_part_001 self) w), self,
      snd (snd (getDigitalActionData_part_001 vr (m_stopTrack_part_001 self) w)))"
  by (simp add: stopSong_part_001_def isDigitalActionActivatedOnce_part_001_eq)

lemma leftHandRoomTurn_eq:
  "leftHandRoomTurn vr self w =
     (fst (isDigitalActionActivatedConstant_part_001 vr (m_leftHandRoomTurn self) w), self,
      snd (snd (getDigitalActionData_part_001 vr (m_leftHandRoomTurn self) w)))"
  by (simp add: leftHandRoomTurn_def isDigitalActionActivatedConstant_part_001_eq)

lemma rightHandRoomTurn_eq:
  "rightHandRoomTurn vr self w =
     (fst (isDigitalActionActivatedConstant_part_001 vr (m_rightHandRoomTurn self) w), self,
      snd (snd (getDigitalActionData_part_001 vr (m_rightHandRoomTurn self) w)))"
  by (simp add: rightHandRoomTurn_def isDigitalActionActivatedConstant_part_001_eq)

lemma leftHandRoomDrag_eq:
  "leftHandRoomDrag vr self w =
     (fst (isDigitalActionActivatedConstant_part_001 vr (m_leftHandRoomDrag self) w), self,
      snd (snd (getDigitalActionData_part_001 vr (m_leftHandRoomDrag self) w)))"
  by (simp add: leftHandRoomDrag_def isDigitalActionActivatedConstant_part_001_eq)

lemma rightHandRoomDrag_eq:
  "rightHandRoomDrag vr self w =
     (fst (isDigitalActionActivatedConstant_part_001 vr (m_rightHandRoomDrag self) w), self,
      snd (snd (getDigitalActionData_part_001 vr (m_rightHandRoomDrag self) w)))"
  by (simp add: rightHandRoomDrag_def isDigitalActionActivatedConstant_part_001_eq)

lemma optionalOverrideLeftHandRoomTurn_eq:
  "optionalOverrideLeftHandRoomTurn vr self w =
     (fst (isDigitalActionActivatedConstant_part_001 vr (m_optionalOverrideLeftHandRoomTurn self) w), self,
      snd (snd (getDigitalActionData_part_001 vr (m_optionalOverrideLeftHandRoomTurn self) w)))"
  by (simp add: optionalOverrideLeftHandRoomTurn_def isDigitalActionActivatedConstant_part_001_eq)

lemma optionalOverrideRightHandRoomTurn_eq:
  "optionalOverrideRightHandRoomTurn vr self w =
     (fst (isDigitalActionActivatedConstant_part_001 vr (m_optionalOverrideRightHandRoomTurn self) w), self,
      snd (snd (getDigitalActionData_part_001 vr (m_optionalOverrideRightHandRoomTurn self) w)))"
  by (simp add: optionalOverrideRightHandRoomTurn_def isDigitalActionActivatedConstant_part_001_eq)

lemma optionalOverrideLeftHandRoomDrag_eq:
  "optionalOverrideLeftHandRoomDrag vr self w =
     (fst (isDigitalActionActivatedConstant_part_001 vr (m_optionalOverrideLeftHandRoomDrag self) w), self,
      snd (snd (getDigitalActionData_part_001 vr (m_optionalOverrideLeftHandRoomDrag self) w)))"
  by (simp add: optionalOverrideLeftHandRoomDrag_def isDigitalActionActivatedConstant_part_001_eq)

lemma optionalOverrideRightHandRoomDrag_eq:
  "optionalOverrideRightHandRoomDrag vr self w =
     (fst (isDigitalActionActivatedConstant_part_001 vr (m_optionalOverrideRightHandRoomDrag self) w), self,
      snd (snd (getDigitalActionData_part_001 vr (m_optionalOverrideRightHandRoomDrag self) w)))"
  by (simp add: optionalOverrideRightHandRoomDrag_def isDigitalActionActivatedConstant_part_001_eq)

lemma pushToTalk_eq:
  "pushToTalk vr self w =
     (fst (isDigitalActionActivatedConstant_part_001 vr (m_pushToTalk self) w), self,
      snd (snd (getDigitalActionData_part_001 vr (m_pushToTalk self) w)))"
  by (simp add: pushToTalk_def isDigitalActionActivatedConstant_part_001_eq)

lemmas member_eqs_part_001 =
  nextSong_part_001_eq previousSong_part_001_eq pausePlaySong_part_001_eq
  stopSong_part_001_eq leftHandRoomTurn_eq rightHandRoomTurn_eq
  leftHandRoomDrag_eq rightHandRoomDrag_eq optionalOverrideLeftHandRoomTurn_eq
  optionalOverrideRightHandRoomTurn_eq optionalOverrideLeftHandRoomDrag_eq optionalOverrideRightHandRoomDrag_eq
  pushToTalk_eq


lemma UpdateStates_part_001_actions:
  "actions_part_001 (fst (snd (UpdateStates_part_001 vr self w))) = actions_part_001 self"
  by (simp add: UpdateStates_part_001_def actions_part_001_def case_prod_beta)

lemma UpdateStates_part_001_descriptor:
  assumes "\<forall>s r. fst (snd (UpdateActionState vr [s] (sizeof_VRActiveActionSet_t vr) 1 r)) = [s]"
  shows "fst (snd (UpdateStates_part_001 vr self w)) = self"
  using assms
  by (simp add: UpdateStates_part_001_def VRInput_UpdateActionState_def case_prod_beta)

lemma UpdateStates_part_001_args:
  "UpdateActionState_args (calls (snd (snd (UpdateStates_part_001 vr self w))))
     = UpdateActionState_args (calls w)
       @ [([m_activeActionSet_part_001 self], sizeof_VRActiveActionSet_t vr, 1)]"
  by (simp add: UpdateStates_part_001_def VRInput_UpdateActionState_def LOG_ERROR_fields
        UpdateActionState_args_append case_prod_beta)

lemma invoke_part_001_query:
  "m \<noteq> P_UpdateStates \<Longrightarrow> fst (snd (invoke_part_001 vr m self w)) = self"
  by (cases m) (simp_all add: returned_def member_eqs_part_001)

lemma invoke_part_001_actions:
  "actions_part_001 (fst (snd (invoke_part_001 vr m self w))) = actions_part_001 self"
  by (cases m) (simp_all add: returned_def member_eqs_part_001 UpdateStates_part_001_actions case_prod_beta)

lemma invoke_part_001_self:
  assumes "\<forall>s r. fst (snd (UpdateActionState vr [s] (sizeof_VRActiveActionSet_t vr) 1 r)) = [s]"
  shows "fst (snd (invoke_part_001 vr m self w)) = self"
  by (cases m)
    (simp_all add: returned_def member_eqs_part_001 UpdateStates_part_001_descriptor [OF assms]
       case_prod_beta)

lemma invoke_part_001_args:
  "UpdateActionState_args (calls (snd (snd (invoke_part_001 vr m self w))))
     = UpdateActionState_args (calls w)
       @ (if m = P_UpdateStates
          then [([m_activeActionSet_part_001 self], sizeof_VRActiveActionSet_t vr, 1)] else [])"
proof (cases m)
  case P_UpdateStates
  with UpdateStates_part_001_args [of vr self w] show ?thesis
    by (simp add: returned_def case_prod_beta)
qed (simp_all add: returned_def member_eqs_part_001 getDigitalActionData_part_001_args)

lemma run_part_001_actions: "actions_part_001 (fst (run_part_001 vr ms s)) = actions_part_001 (fst s)"
  by (induction ms arbitrary: s) (simp_all add: invoke_part_001_actions)

lemma run_part_001_self:
  assumes "\<forall>s r. fst (snd (UpdateActionState vr [s] (sizeof_VRActiveActionSet_t vr) 1 r)) = [s]"
  shows "fst (run_part_001 vr ms s) = fst s"
  by (induction ms arbitrary: s) (simp_all add: invoke_part_001_self [OF assms])

lemma run_part_001_args:
  assumes "\<forall>s r. fst (snd (UpdateActionState vr [s] (sizeof_VRActiveActionSet_t vr) 1 r)) = [s]"
  shows "UpdateActionState_args (calls (snd (run_part_001 vr ms s)))
     = UpdateActionState_args (calls (snd s))
       @ replicate (count_list ms P_UpdateStates)
           ([m_activeActionSet_part_001 (fst s)], sizeof_VRActiveActionSet_t vr, 1)"
proof (induction ms arbitrary: s)
  case Nil
  show ?case by simp
next
  case (Cons m ms)
  show ?case
    by (simp add: Cons.IH invoke_part_001_self [OF assms] invoke_part_001_args replicate_app_Cons_same)
qed

lemma invoke_part_001_digital:
  assumes "list_all (\<lambda>a. type a = Digital) (actions_part_001 self)"
  shows "\<exists>v. fst (invoke_part_001 vr m self w) = Inr v"
proof (cases m)
  case P_UpdateStates
  then show ?thesis
    by (simp add: returned_def UpdateStates_part_001_def case_prod_beta)
next
  case P_nextSong
  with getDigitalActionData_part_001_result [of "m_nextTrack_part_001 self" vr w] assms show ?thesis
    by (auto simp add: returned_def nextSong_part_001_eq isDigitalActionActivatedOnce_part_001_eq actions_part_001_def)
next
  case P_previousSong
  with getDigitalActionData_part_001_result [of "m_previousTrack_part_001 self" vr w] assms show ?thesis
    by (auto simp add: returned_def previousSong_part_001_eq isDigitalActionActivatedOnce_part_001_eq actions_part_001_def)
next
  case P_pausePlaySong
  with getDigitalActionData_part_001_result [of "m_pausePlayTrack_part_001 self" vr w] assms show ?thesis
    by (auto simp add: returned_def pausePlaySong_part_001_eq isDigitalActionActivatedOnce_part_001_eq actions_part_001_def)
next
  case P_stopSong
  with getDigitalActionData_part_001_result [of "m_stopTrack_part_001 self" vr w] assms show ?thesis
    by (auto simp add: returned_def stopSong_part_001_eq isDigitalActionActivatedOnce_part_001_eq actions_part_001_def)
next
  case P_leftHandRoomTurn
  with getDigitalActionData_part_001_result [of "m_leftHandRoomTurn self" vr w] assms show ?thesis
    by (auto simp add: returned_def leftHandRoomTurn_eq isDigitalActionActivatedConstant_part_001_eq actions_part_001_def)
next
  case P_rightHandRoomTurn
  with getDigitalActionData_part_001_result [of "m_rightHandRoomTurn self" vr w] assms show ?thesis
    by (auto simp add: returned_def rightHandRoomTurn_eq isDigitalActionActivatedConstant_part_001_eq actions_part_001_def)
next
  case P_leftHandRoomDrag
  with getDigitalActionData_part_001_result [of "m_leftHandRoomDrag self" vr w] assms show ?thesis
    by (auto simp add: returned_def leftHandRoomDrag_eq isDigitalActionActivatedConstant_part_001_eq actions_part_001_def)
next
  case P_rightHandRoomDrag
  with getDigitalActionData_part_001_result [of "m_rightHandRoomDrag self" vr w] assms show ?thesis
    by (auto simp add: returned_def rightHandRoomDrag_eq isDigitalActionActivatedConstant_part_001_eq actions_part_001_def)
next
  case P_optionalOverrideLeftHandRoomTurn
  with getDigitalActionData_part_001_result [of "m_optionalOverrideLeftHandRoomTurn self" vr w] assms show ?thesis
    by (auto simp add: returned_def optionalOverrideLeftHandRoomTurn_eq isDigitalActionActivatedConstant_part_001_eq actions_part_001_def)
next
  case P_optionalOverrideRightHandRoomTurn
  with getDigitalActionData_part_001_result [of "m_optionalOverrideRightHandRoomTurn self" vr w] assms show ?thesis
    by (auto simp add: returned_def optionalOverrideRightHandRoomTurn_eq isDigitalActionActivatedConstant_part_001_eq actions_part_001_def)
next
  case P_optionalOverrideLeftHandRoomDrag
  with getDigitalActionData_part_001_result [of "m_optionalOverrideLeftHandRoomDrag self" vr w] assms show ?thesis
    by (auto simp add: returned_def optionalOverrideLeftHandRoomDrag_eq isDigitalActionActivatedConstant_part_001_eq actions_part_001_def)
next
  case P_optionalOverrideRightHandRoomDrag
  with getDigitalActionData_part_001_result [of "m_optionalOverrideRightHandRoomDrag self" vr w] assms show ?thesis
    by (auto simp add: returned_def optionalOverrideRightHandRoomDrag_eq isDigitalActionActivatedConstant_part_001_eq actions_part_001_def)
next
  case P_pushToTalk
  with getDigitalActionData_part_001_result [of "m_pushToTalk self" vr w] assms show ?thesis
    by (auto simp add: returned_def pushToTalk_eq isDigitalActionActivatedConstant_part_001_eq actions_part_001_def)
qed

lemma SteamIVRInput_ctor_part_001_digital:
  "list_all (\<lambda>a. type a = Digital)
     (actions_part_001 (fst (SteamIVRInput_ctor_part_001 vr actionManifestPath strs w)))"
  by (simp add: SteamIVRInput_ctor_part_001_def actions_part_001_def Let_def case_prod_beta Action_ctor_type)

lemma SteamIVRInput_ctor_part_001_activeActionSet:
  "m_activeActionSet_part_001 (fst (SteamIVRInput_ctor_part_001 vr actionManifestPath strs w)) =
     \<lparr>ulActionSet =
        set_handle (m_mainSet_part_001 (fst (SteamIVRInput_ctor_part_001 vr actionManifestPath strs w))),
      ulRestrictedToDevice = k_ulInvalidInputValueHandle,
      nPriority = 0\<rparr>"
  by (simp add: SteamIVRInput_ctor_part_001_def Let_def case_prod_beta zero_VRActiveActionSet_t_def)

section \<open>What the constructors do\<close>

lemma Action_ctor_args:
  "UpdateActionState_args (calls (snd (Action_ctor vr actionName t w)))
     = UpdateActionState_args (calls w)"
  by (simp add: Action_ctor_def VRInput_GetActionHandle_def LOG_ERROR_fields
        UpdateActionState_args_append case_prod_beta)

lemma ActionSet_ctor_args:
  "UpdateActionState_args (calls (snd (ActionSet_ctor vr setName w)))
     = UpdateActionState_args (calls w)"
  by (simp add: ActionSet_ctor_def VRInput_GetActionSetHandle_def LOG_ERROR_fields
        UpdateActionState_args_append case_prod_beta)

lemma Manifest_ctor_args:
  "UpdateActionState_args (calls (snd (Manifest_ctor vr actionManifestPath w)))
     = UpdateActionState_args (calls w)"
  by (simp add: Manifest_ctor_def VRInput_SetActionManifestPath_def LOG_ERROR_fields
        UpdateActionState_args_append case_prod_beta)

lemma SteamIVRInput_ctor_args:
  "UpdateActionState_args (calls (snd (SteamIVRInput_ctor vr actionManifestPath strs w)))
     = UpdateActionState_args (calls w)"
  by (simp add: SteamIVRInput_ctor_def Let_def case_prod_beta Action_ctor_args
        ActionSet_ctor_args Manifest_ctor_args)

lemma example_ctor_mainSet:
  "set_handle
     (m_mainSet
        (fst (SteamIVRInput_ctor (example_vr 0 id) ''action_manifest.json''
                example_strings example_world))) = 13"
  by (simp add: SteamIVRInput_ctor_def Let_def case_prod_beta ActionSet_ctor_def
        VRInput_GetActionSetHandle_def example_vr_def example_strings_def)

lemma SteamIVRInput_ctor_part_001_args:
  "UpdateActionState_args (calls (snd (SteamIVRInput_ctor_part_001 vr actionManifestPath strs w)))
     = UpdateActionState_args (calls w)"
  by (simp add: SteamIVRInput_ctor_part_001_def Let_def case_prod_beta Action_ctor_args
        ActionSet_ctor_args Manifest_ctor_args)

lemma example_ctor_part_001_mainSet:
  "set_handle
     (m_mainSet_part_001
        (fst (SteamIVRInput_ctor_part_001 (example_vr 0 id) ''action_manifest.json''
                example_strings_part_001 example_world))) = 13"
  by (simp add: SteamIVRInput_ctor_part_001_def Let_def case_prod_beta ActionSet_ctor_def
        VRInput_GetActionSetHandle_def example_vr_def example_strings_part_001_def)

lemma writing_ctor_mainSet:
  "set_handle
     (m_mainSet
        (fst (SteamIVRInput_ctor writing_vr ''action_manifest.json''
                example_strings example_world))) = 13"
  by (simp add: SteamIVRInput_ctor_def Let_def case_prod_beta ActionSet_ctor_def
        VRInput_GetActionSetHandle_def writing_vr_def example_vr_def example_strings_def)

lemma writing_UpdateStates:
  "fst (snd (UpdateStates writing_vr self w)) =
     self\<lparr>m_activeActionSet :=
            (m_activeActionSet self)\<lparr>ulRestrictedToDevice := 77, nPriority := 5\<rparr>\<rparr>"
  by (simp add: UpdateStates_def VRInput_UpdateActionState_def writing_vr_def example_vr_def
        case_prod_beta)

section \<open>The claims\<close>

subsection \<open>Digital activation\<close>

text \<open>
  C1. For a digital-typed action, the activated-once query returns true exactly when the
  digital state the runtime reports for it is pressed and changed since the last poll:
  when the runtime call on the action's handle leaves \<open>state\<close> in the
  zero-initialised buffer, \<^verbatim>\<open>isDigitalActionActivatedOnce\<close> returns
  \<open>bState state \<and> bChanged state\<close>, whatever the error code; so do \<^verbatim>\<open>nextSong\<close>,
  \<^verbatim>\<open>previousSong\<close>, \<^verbatim>\<open>pausePlaySong\<close> and \<^verbatim>\<open>stopSong\<close> on an object whose
  member is that action (both versions of the module).
\<close>

theorem C1_activated_once:
  assumes "type action = Digital"
      and "GetDigitalActionData vr (handle action) zero_InputDigitalActionData_t
             (sizeof_InputDigitalActionData_t vr) k_ulInvalidInputValueHandle (runtime w)
           = (error, state, r)"
  shows "fst (isDigitalActionActivatedOnce vr action w) = Inr (bState state \<and> bChanged state)
       \<and> fst (isDigitalActionActivatedOnce_part_001 vr action w) = Inr (bState state \<and> bChanged state)
       \<and> fst (nextSong vr (self\<lparr>m_nextTrack := action\<rparr>) w) = Inr (bState state \<and> bChanged state)
       \<and> fst (previousSong vr (self\<lparr>m_previousTrack := action\<rparr>) w) = Inr (bState state \<and> bChanged state)
       \<and> fst (pausePlaySong vr (self\<lparr>m_pausePlayTrack := action\<rparr>) w) = Inr (bState state \<and> bChanged state)
       \<and> fst (stopSong vr (self\<lparr>m_stopTrack := action\<rparr>) w) = Inr (bState state \<and> bChanged state)
       \<and> fst (nextSong_part_001 vr (self'\<lparr>m_nextTrack_part_001 := action\<rparr>) w) = Inr (bState state \<and> bChanged state)
       \<and> fst (previousSong_part_001 vr (self'\<lparr>m_previousTrack_part_001 := action\<rparr>) w) = Inr (bState state \<and> bChanged state)
       \<and> fst (pausePlaySong_part_001 vr (self'\<lparr>m_pausePlayTrack_part_001 := action\<rparr>) w) = Inr (bState state \<and> bChanged state)
       \<and> fst (stopSong_part_001 vr (self'\<lparr>m_stopTrack_part_001 := action\<rparr>) w) = Inr (bState state \<and> bChanged state)"
proof -
  have "fst (getDigitalActionData vr action w) = Inr state"
    and "fst (getDigitalActionData_part_001 vr action w) = Inr state"
    using getDigitalActionData_digital [OF assms] getDigitalActionData_part_001_digital [OF assms]
    by simp_all
  then show ?thesis
    by (simp add: isDigitalActionActivatedOnce_eq isDigitalActionActivatedOnce_part_001_eq
          nextSong_eq previousSong_eq pausePlaySong_eq stopSong_eq
          nextSong_part_001_eq previousSong_part_001_eq pausePlaySong_part_001_eq
          stopSong_part_001_eq)
qed

text \<open>At a runtime that reports pressed and changed every query answers true; at one
  that reports pressed and unchanged (the button is held) every query answers false.\<close>

theorem C1_activated_once_witness:
  "(fst (isDigitalActionActivatedOnce (example_vr 0 (write_state True True)) example_digital example_world) = Inr True
    \<and> fst (isDigitalActionActivatedOnce_part_001 (example_vr 0 (write_state True True)) example_digital example_world) = Inr True
    \<and> fst (nextSong (example_vr 0 (write_state True True)) (example_self\<lparr>m_nextTrack := example_digital\<rparr>) example_world) = Inr True
    \<and> fst (previousSong (example_vr 0 (write_state True True)) (example_self\<lparr>m_previousTrack := example_digital\<rparr>) example_world) = Inr True
    \<and> fst (pausePlaySong (example_vr 0 (write_state True True)) (example_self\<lparr>m_pausePlayTrack := example_digital\<rparr>) example_world) = Inr True
    \<and> fst (stopSong (example_vr 0 (write_state True True)) (example_self\<lparr>m_stopTrack := example_digital\<rparr>) example_world) = Inr True
    \<and> fst (nextSong_part_001 (example_vr 0 (write_state True True)) (example_self_part_001\<lparr>m_nextTrack_part_001 := example_digital\<rparr>) example_world) = Inr True
    \<and> fst (previousSong_part_001 (example_vr 0 (write_state True True)) (example_self_part_001\<lparr>m_previousTrack_part_001 := example_digital\<rparr>) example_world) = Inr True
    \<and> fst (pausePlaySong_part_001 (example_vr 0 (write_state True True)) (example_self_part_001\<lparr>m_pausePlayTrack_part_001 := example_digital\<rparr>) example_world) = Inr True
    \<and> fst (stopSong_part_001 (example_vr 0 (write_state True True)) (example_self_part_001\<lparr>m_stopTrack_part_001 := example_digital\<rparr>) example_world) = Inr True)
   \<and> (fst (isDigitalActionActivatedOnce (example_vr 0 (write_state True False)) example_digital example_world) = Inr False
    \<and> fst (isDigitalActionActivatedOnce_part_001 (example_vr 0 (write_state True False)) example_digital example_world) = Inr False
    \<and> fst (nextSong (example_vr 0 (write_state True False)) (example_self\<lparr>m_nextTrack := example_digital\<rparr>) example_world) = Inr False
    \<and> fst (previousSong (example_vr 0 (write_state True False)) (example_self\<lparr>m_previousTrack := example_digital\<rparr>) example_world) = Inr False
    \<and> fst (pausePlaySong (example_vr 0 (write_state True False)) (example_self\<lparr>m_pausePlayTrack := example_digital\<rparr>) example_world) = Inr False
    \<and> fst (stopSong (example_vr 0 (write_state True False)) (example_self\<lparr>m_stopTrack := example_digital\<rparr>) example_world) = Inr False
    \<and> fst (nextSong_part_001 (example_vr 0 (write_state True False)) (example_self_part_001\<lparr>m_nextTrack_part_001 := example_digital\<rparr>) example_world) = Inr False
    \<and> fst (previousSong_part_001 (example_vr 0 (write_state True False)) (example_self_part_001\<lparr>m_previousTrack_part_001 := example_digital\<rparr>) example_world) = Inr False
    \<and> fst (pausePlaySong_part_001 (example_vr 0 (write_state True False)) (example_self_part_001\<lparr>m_pausePlayTrack_part_001 := example_digital\<rparr>) example_world) = Inr False
    \<and> fst (stopSong_part_001 (example_vr 0 (write_state True False)) (example_self_part_001\<lparr>m_stopTrack_part_001 := example_digital\<rparr>) example_world) = Inr False)"
proof -
  have t: "type example_digital = Digital"
    by (simp add: example_digital_def)
  have a: "GetDigitalActionData (example_vr 0 (write_state True True)) (handle example_digital)
             zero_InputDigitalActionData_t
             (sizeof_InputDigitalActionData_t (example_vr 0 (write_state True True)))
             k_ulInvalidInputValueHandle (runtime example_world)
           = (0, write_state True True zero_InputDigitalActionData_t, 1)"
    by (simp add: example_vr_def example_world_def)
  have b: "GetDigitalActionData (example_vr 0 (write_state True False)) (handle example_digital)
             zero_InputDigitalActionData_t
             (sizeof_InputDigitalActionData_t (example_vr 0 (write_state True False)))
             k_ulInvalidInputValueHandle (runtime example_world)
           = (0, write_state True False zero_InputDigitalActionData_t, 1)"
    by (simp add: example_vr_def example_world_def)
  show ?thesis
    using C1_activated_once [OF t a, of example_self example_self_part_001]
      C1_activated_once [OF t b, of example_self example_self_part_001]
    by (simp add: write_state_def)
qed

text \<open>
  C4. For a digital-typed action, the activated-continuously query returns true exactly
  when the pressed flag the runtime reports is true, whatever the changed flag:
  \<^verbatim>\<open>isDigitalActionActivatedConstant\<close> returns \<open>bState state\<close>, and so does every
  hold-style member function (the playspace and room accessors, their optional
  overrides and \<^verbatim>\<open>pushToTalk\<close>) on an object whose member is that action.
\<close>

theorem C4_activated_constant:
  assumes "type action = Digital"
      and "GetDigitalActionData vr (handle action) zero_InputDigitalActionData_t
             (sizeof_InputDigitalActionData_t vr) k_ulInvalidInputValueHandle (runtime w)
           = (error, state, r)"
  shows "fst (isDigitalActionActivatedConstant vr action w) = Inr (bState state)
       \<and> fst (isDigitalActionActivatedConstant_part_001 vr action w) = Inr (bState state)
       \<and> fst (leftHandPlayspaceRotate vr (self\<lparr>m_leftHandPlayspaceRotate := action\<rparr>) w) = Inr (bState state)
       \<and> fst (rightHandPlayspaceRotate vr (self\<lparr>m_rightHandPlayspaceRotate := action\<rparr>) w) = Inr (bState state)
       \<and> fst (leftHandPlayspaceMove vr (self\<lparr>m_leftHandPlayspaceMove := action\<rparr>) w) = Inr (bState state)
       \<and> fst (rightHandPlayspaceMove vr (self\<lparr>m_rightHandPlayspaceMove := action\<rparr>) w) = Inr (bState state)
       \<and> fst (optionalOverrideLeftHandPlayspaceRotate vr (self\<lparr>m_optionalOverrideLeftHandPlayspaceRotate := action\<rparr>) w) = Inr (bState state)
       \<and> fst (optionalOverrideRightHandPlayspaceRotate vr (self\<lparr>m_optionalOverrideRightHandPlayspaceRotate := action\<rparr>) w) = Inr (bState state)
       \<and> fst (optionalOverrideLeftHandPlayspaceMove vr (self\<lparr>m_optionalOverrideLeftHandPlayspaceMove := action\<rparr>) w) = Inr (bState state)
       \<and> fst (optionalOverrideRightHandPlayspaceMove vr (self\<lparr>m_optionalOverrideRightHandPlayspaceMove := action\<rparr>) w) = Inr (bState state)
       \<and> fst (leftHandRoomTurn vr (self'\<lparr>m_leftHandRoomTurn := action\<rparr>) w) = Inr (bState state)
       \<and> fst (rightHandRoomTurn vr (self'\<lparr>m_rightHandRoomTurn := action\<rparr>) w) = Inr (bState state)
       \<and> fst (leftHandRoomDrag vr (self'\<lparr>m_leftHandRoomDrag := action\<rparr>) w) = Inr (bState state)
       \<and> fst (rightHandRoomDrag vr (self'\<lparr>m_rightHandRoomDrag := action\<rparr>) w) = Inr (bState state)
       \<and> fst (optionalOverrideLeftHandRoomTurn vr (self'\<lparr>m_optionalOverrideLeftHandRoomTurn := action\<rparr>) w) = Inr (bState state)
       \<and> fst (optionalOverrideRightHandRoomTurn vr (self'\<lparr>m_optionalOverrideRightHandRoomTurn := action\<rparr>) w) = Inr (bState state)
       \<and> fst (optionalOverrideLeftHandRoomDrag vr (self'\<lparr>m_optionalOverrideLeftHandRoomDrag := action\<rparr>) w) = Inr (bState state)
       \<and> fst (optionalOverrideRightHandRoomDrag vr (self'\<lparr>m_optionalOverrideRightHandRoomDrag := action\<rparr>) w) = Inr (bState state)
       \<and> fst (pushToTalk vr (self'\<lparr>m_pushToTalk := action\<rparr>) w) = Inr (bState state)"
proof -
  have "fst (getDigitalActionData vr action w) = Inr state"
    and "fst (getDigitalActionData_part_001 vr action w) = Inr state"
    using getDigitalActionData_digital [OF assms] getDigitalActionData_part_001_digital [OF assms]
    by simp_all
  then show ?thesis
    by (simp add: isDigitalActionActivatedConstant_eq isDigitalActionActivatedConstant_part_001_eq
          leftHandPlayspaceRotate_eq rightHandPlayspaceRotate_eq
          leftHandPlayspaceMove_eq rightHandPlayspaceMove_eq
          optionalOverrideLeftHandPlayspaceRotate_eq optionalOverrideRightHandPlayspaceRotate_eq
          optionalOverrideLeftHandPlayspaceMove_eq optionalOverrideRightHandPlayspaceMove_eq
          leftHandRoomTurn_eq rightHandRoomTurn_eq
          leftHandRoomDrag_eq rightHandRoomDrag_eq
          optionalOverrideLeftHandRoomTurn_eq optionalOverrideRightHandRoomTurn_eq
          optionalOverrideLeftHandRoomDrag_eq optionalOverrideRightHandRoomDrag_eq
          pushToTalk_eq)
qed

text \<open>Held and unchanged: every hold-style query answers true. Released and changed:
  every one answers false.\<close>

theorem C4_activated_constant_witness:
  "(fst (isDigitalActionActivatedConstant (example_vr 0 (write_state True False)) example_digital example_world) = Inr True
    \<and> fst (isDigitalActionActivatedConstant_part_001 (example_vr 0 (write_state True False)) example_digital example_world) = Inr True
    \<and> fst (leftHandPlayspaceRotate (example_vr 0 (write_state True False)) (example_self\<lparr>m_leftHandPlayspaceRotate := example_digital\<rparr>) example_world) = Inr True
    \<and> fst (rightHandPlayspaceRotate (example_vr 0 (write_state True False)) (example_self\<lparr>m_rightHandPlayspaceRotate := example_digital\<rparr>) example_world) = Inr True
    \<and> fst (leftHandPlayspaceMove (example_vr 0 (write_state True False)) (example_self\<lparr>m_leftHandPlayspaceMove := example_digital\<rparr>) example_world) = Inr True
    \<and> fst (rightHandPlayspaceMove (example_vr 0 (write_state True False)) (example_self\<lparr>m_rightHandPlayspaceMove := example_digital\<rparr>) example_world) = Inr True
    \<and> fst (optionalOverrideLeftHandPlayspaceRotate (example_vr 0 (write_state True False)) (example_self\<lparr>m_optionalOverrideLeftHandPlayspaceRotate := example_digital\<rparr>) example_world) = Inr True
    \<and> fst (optionalOverrideRightHandPlayspaceRotate (example_vr 0 (write_state True False)) (example_self\<lparr>m_optionalOverrideRightHandPlayspaceRotate := example_digital\<rparr>) example_world) = Inr True
    \<and> fst (optionalOverrideLeftHandPlayspaceMove (example_vr 0 (write_state True False)) (example_self\<lparr>m_optionalOverrideLeftHandPlayspaceMove := example_digital\<rparr>) example_world) = Inr True
    \<and> fst (optionalOverrideRightHandPlayspaceMove (example_vr 0 (write_state True False)) (example_self\<lparr>m_optionalOverrideRightHandPlayspaceMove := example_digital\<rparr>) example_world) = Inr True
    \<and> fst (leftHandRoomTurn (example_vr 0 (write_state True False)) (example_self_part_001\<lparr>m_leftHandRoomTurn := example_digital\<rparr>) example_world) = Inr True
    \<and> fst (rightHandRoomTurn (example_vr 0 (write_state True False)) (example_self_part_001\<lparr>m_rightHandRoomTurn := example_digital\<rparr>) example_world) = Inr True
    \<and> fst (leftHandRoomDrag (example_vr 0 (write_state True False)) (example_self_part_001\<lparr>m_leftHandRoomDrag := example_digital\<rparr>) example_world) = Inr True
    \<and> fst (rightHandRoomDrag (example_vr 0 (write_state True False)) (example_self_part_001\<lparr>m_rightHandRoomDrag := example_digital\<rparr>) example_world) = Inr True
    \<and> fst (optionalOverrideLeftHandRoomTurn (example_vr 0 (write_state True False)) (example_self_part_001\<lparr>m_optionalOverrideLeftHandRoomTurn := example_digital\<rparr>) example_world) = Inr True
    \<and> fst (optionalOverrideRightHandRoomTurn (example_vr 0 (write_state True False)) (example_self_part_001\<lparr>m_optionalOverrideRightHandRoomTurn := example_digital\<rparr>) example_world) = Inr True
    \<and> fst (optionalOverrideLeftHandRoomDrag (example_vr 0 (write_state True False)) (example_self_part_001\<lparr>m_optionalOverrideLeftHandRoomDrag := example_digital\<rparr>) example_world) = Inr True
    \<and> fst (optionalOverrideRightHandRoomDrag (example_vr 0 (write_state True False)) (example_self_part_001\<lparr>m_optionalOverrideRightHandRoomDrag := example_digital\<rparr>) example_world) = Inr True
    \<and> fst (pushToTalk (example_vr 0 (write_state True False)) (example_self_part_001\<lparr>m_pushToTalk := example_digital\<rparr>) example_world) = Inr True)
   \<and> (fst (isDigitalActionActivatedConstant (example_vr 0 (write_state False True)) example_digital example_world) = Inr False
    \<and> fst (isDigitalActionActivatedConstant_part_001 (example_vr 0 (write_state False True)) example_digital example_world) = Inr False
    \<and> fst (leftHandPlayspaceRotate (example_vr 0 (write_state False True)) (example_self\<lparr>m_leftHandPlayspaceRotate := example_digital\<rparr>) example_world) = Inr False
    \<and> fst (rightHandPlayspaceRotate (example_vr 0 (write_state False True)) (example_self\<lparr>m_rightHandPlayspaceRotate := example_digital\<rparr>) example_world) = Inr False
    \<and> fst (leftHandPlayspaceMove (example_vr 0 (write_state False True)) (example_self\<lparr>m_leftHandPlayspaceMove := example_digital\<rparr>) example_world) = Inr False
    \<and> fst (rightHandPlayspaceMove (example_vr 0 (write_state False True)) (example_self\<lparr>m_rightHandPlayspaceMove := example_digital\<rparr>) example_world) = Inr False
    \<and> fst (optionalOverrideLeftHandPlayspaceRotate (example_vr 0 (write_state False True)) (example_self\<lparr>m_optionalOverrideLeftHandPlayspaceRotate := example_digital\<rparr>) example_world) = Inr False
    \<and> fst (optionalOverrideRightHandPlayspaceRotate (example_vr 0 (write_state False True)) (example_self\<lparr>m_optionalOverrideRightHandPlayspaceRotate := example_digital\<rparr>) example_world) = Inr False
    \<and> fst (optionalOverrideLeftHandPlayspaceMove (example_vr 0 (write_state False True)) (example_self\<lparr>m_optionalOverrideLeftHandPlayspaceMove := example_digital\<rparr>) example_world) = Inr False
    \<and> fst (optionalOverrideRightHandPlayspaceMove (example_vr 0 (write_state False True)) (example_self\<lparr>m_optionalOverrideRightHandPlayspaceMove := example_digital\<rparr>) example_world) = Inr False
    \<and> fst (leftHandRoomTurn (example_vr 0 (write_state False True)) (example_self_part_001\<lparr>m_leftHandRoomTurn := example_digital\<rparr>) example_world) = Inr False
    \<and> fst (rightHandRoomTurn (example_vr 0 (write_state False True)) (example_self_part_001\<lparr>m_rightHandRoomTurn := example_digital\<rparr>) example_world) = Inr False
    \<and> fst (leftHandRoomDrag (example_vr 0 (write_state False True)) (example_self_part_001\<lparr>m_leftHandRoomDrag := example_digital\<rparr>) example_world) = Inr False
    \<and> fst (rightHandRoomDrag (example_vr 0 (write_state False True)) (example_self_part_001\<lparr>m_rightHandRoomDrag := example_digital\<rparr>) example_world) = Inr False
    \<and> fst (optionalOverrideLeftHandRoomTurn (example_vr 0 (write_state False True)) (example_self_part_001\<lparr>m_optionalOverrideLeftHandRoomTurn := example_digital\<rparr>) example_world) = Inr False
    \<and> fst (optionalOverrideRightHandRoomTurn (example_vr 0 (write_state False True)) (example_self_part_001\<lparr>m_optionalOverrideRightHandRoomTurn := example_digital\<rparr>) example_world) = Inr False
    \<and> fst (optionalOverrideLeftHandRoomDrag (example_vr 0 (write_state False True)) (example_self_part_001\<lparr>m_optionalOverrideLeftHandRoomDrag := example_digital\<rparr>) example_world) = Inr False
    \<and> fst (optionalOverrideRightHandRoomDrag (example_vr 0 (write_state False True)) (example_self_part_001\<lparr>m_optionalOverrideRightHandRoomDrag := example_digital\<rparr>) example_world) = Inr False
    \<and> fst (pushToTalk (example_vr 0 (write_state False True)) (example_self_part_001\<lparr>m_pushToTalk := example_digital\<rparr>) example_world) = Inr False)"
proof -
  have t: "type example_digital = Digital"
    by (simp add: example_digital_def)
  have a: "GetDigitalActionData (example_vr 0 (write_state True False)) (handle example_digital)
             zero_InputDigitalActionData_t
             (sizeof_InputDigitalActionData_t (example_vr 0 (write_state True False)))
             k_ulInvalidInputValueHandle (runtime example_world)
           = (0, write_state True False zero_InputDigitalActionData_t, 1)"
    by (simp add: example_vr_def example_world_def)
  have b: "GetDigitalActionData (example_vr 0 (write_state False True)) (handle example_digital)
             zero_InputDigitalActionData_t
             (sizeof_InputDigitalActionData_t (example_vr 0 (write_state False True)))
             k_ulInvalidInputValueHandle (runtime example_world)
           = (0, write_state False True zero_InputDigitalActionData_t, 1)"
    by (simp add: example_vr_def example_world_def)
  show ?thesis
    using C4_activated_constant [OF t a, of example_self example_self_part_001]
      C4_activated_constant [OF t b, of example_self example_self_part_001]
    by (simp add: write_state_def)
qed

text \<open>
  C8. Activated once implies activated continuously: on the same action, runtime and
  world, when \<^verbatim>\<open>isDigitalActionActivatedOnce\<close> returns true so does
  \<^verbatim>\<open>isDigitalActionActivatedConstant\<close>; and whenever the latter returns \<open>c\<close>, the
  former returns the conjunction of \<open>c\<close> with the changed flag of the data read.
\<close>

theorem C8_once_implies_constant:
  "(fst (isDigitalActionActivatedOnce vr action w) = Inr True
      \<longrightarrow> fst (isDigitalActionActivatedConstant vr action w) = Inr True)
   \<and> (\<forall>c. fst (isDigitalActionActivatedConstant vr action w) = Inr c
          \<longrightarrow> (\<exists>d. fst (getDigitalActionData vr action w) = Inr d
                   \<and> fst (isDigitalActionActivatedOnce vr action w) = Inr (c \<and> bChanged d)))"
  by (cases "fst (getDigitalActionData vr action w)")
    (auto simp add: isDigitalActionActivatedOnce_eq isDigitalActionActivatedConstant_eq)

theorem C8_once_implies_constant_witness:
  "fst (isDigitalActionActivatedOnce (example_vr 0 (write_state True True)) example_digital
          example_world) = Inr True
   \<and> fst (isDigitalActionActivatedConstant (example_vr 0 (write_state True True)) example_digital
            example_world) = Inr True"
proof -
  have "fst (isDigitalActionActivatedOnce (example_vr 0 (write_state True True)) example_digital
               example_world) = Inr True"
    by (simp add: isDigitalActionActivatedOnce_def getDigitalActionData_def
          VRInput_GetDigitalActionData_def example_vr_def example_digital_def example_world_def
          write_state_def zero_InputDigitalActionData_t_def)
  with C8_once_implies_constant
         [of "example_vr 0 (write_state True True)" example_digital example_world]
  show ?thesis
    by blast
qed

subsection \<open>Errors\<close>

text \<open>
  C2. An action of the wrong type never yields a result: \<^verbatim>\<open>getDigitalActionData\<close> on
  an action that is not digital, and \<^verbatim>\<open>getAnalogActionData\<close> on one that is not
  analog, write one line naming the action to the log and throw
  \<^verbatim>\<open>std::runtime_error\<close>; the runtime is not called (its state and the trace of
  calls are as before). Neither activation query catches the exception: it leaves them
  as it was thrown.
\<close>

theorem C2_type_mismatch:
  assumes "type a \<noteq> Digital" and "type b \<noteq> Analog"
  shows "getDigitalActionData vr a w =
           (Inl (runtime_error
              (''Action was passed to IVRInput getDigitalActionData without being ''
               @ ''a digital type. See log for details.'')),
            a,
            w\<lparr>errlog := errlog w
              @ [[Str (''Action was passed to IVRInput getDigitalActionData without ''
                       @ ''being a digital type. Action: ''),
                  Str (name a)]]\<rparr>)
       \<and> getAnalogActionData vr b w =
           (Inl (runtime_error
              (''Action was passed to IVRInput getAnalogActionData without being ''
               @ ''an analog type. See log for details.'')),
            b,
            w\<lparr>errlog := errlog w
              @ [[Str (''Action was passed to IVRInput getAnalogActionData without ''
                       @ ''being an analog type. Action: ''),
                  Str (name b)]]\<rparr>)
       \<and> (\<exists>e. fst (getDigitalActionData vr a w) = Inl e
              \<and> fst (isDigitalActionActivatedOnce vr a w) = Inl e
              \<and> fst (isDigitalActionActivatedConstant vr a w) = Inl e)"
  using getDigitalActionData_mismatch [OF assms(1), of vr w]
    getAnalogActionData_mismatch [OF assms(2), of vr w]
  by (simp add: isDigitalActionActivatedOnce_eq isDigitalActionActivatedConstant_eq)

theorem C2_type_mismatch_witness:
  "getDigitalActionData (example_vr 0 (write_state True True)) example_analog example_world =
     (Inl (runtime_error
        (''Action was passed to IVRInput getDigitalActionData without being ''
         @ ''a digital type. See log for details.'')),
      example_analog,
      \<lparr>runtime = 0,
       errlog = [[Str (''Action was passed to IVRInput getDigitalActionData without ''
                       @ ''being a digital type. Action: ''),
                  Str ''/actions/main/in/Trigger'']],
       calls = []\<rparr>)
   \<and> getAnalogActionData (example_vr 0 (write_state True True)) example_digital example_world =
     (Inl (runtime_error
        (''Action was passed to IVRInput getAnalogActionData without being ''
         @ ''an analog type. See log for details.'')),
      example_digital,
      \<lparr>runtime = 0,
       errlog = [[Str (''Action was passed to IVRInput getAnalogActionData without ''
                       @ ''being an analog type. Action: ''),
                  Str ''/actions/main/in/NextTrack'']],
       calls = []\<rparr>)"
proof -
  have a: "type example_analog \<noteq> Digital"
    by (simp add: example_analog_def)
  have b: "type example_digital \<noteq> Analog"
    by (simp add: example_digital_def)
  have n: "name example_analog = ''/actions/main/in/Trigger''"
    "name example_digital = ''/actions/main/in/NextTrack''"
    by (simp_all add: example_analog_def example_digital_def)
  show ?thesis
    using C2_type_mismatch [OF a b, of "example_vr 0 (write_state True True)" example_world]
    by (simp add: n example_world_def)
qed

text \<open>
  C3, as the specification states it, fails: the accessor hands the zero-initialised
  buffer to the runtime and returns what the call left in it, whatever the error code.
  At a runtime that answers with error code 3 after writing the pressed and changed
  flags, \<^verbatim>\<open>getDigitalActionData\<close> returns that data, which is not the
  zero-initialised structure.
\<close>

theorem C3_zeroed_result_counterexample:
  "type example_digital = Digital
   \<and> fst (GetDigitalActionData (example_vr 3 (write_state True True)) (handle example_digital)
            zero_InputDigitalActionData_t
            (sizeof_InputDigitalActionData_t (example_vr 3 (write_state True True)))
            k_ulInvalidInputValueHandle (runtime example_world)) \<noteq> VRInputError_None
   \<and> fst (getDigitalActionData (example_vr 3 (write_state True True)) example_digital
            example_world)
       = Inr \<lparr>bActive = True, activeOrigin = 0, bState = True, bChanged = True,
              fUpdateTime = 0\<rparr>
   \<and> \<lparr>bActive = True, activeOrigin = 0, bState = True, bChanged = True, fUpdateTime = 0\<rparr>
       \<noteq> zero_InputDigitalActionData_t"
  by (simp add: getDigitalActionData_def VRInput_GetDigitalActionData_def example_vr_def
        example_digital_def example_world_def write_state_def zero_InputDigitalActionData_t_def
        VRInputError_None_def)

text \<open>
  C3, amended. When the runtime call reports an error code other than success, the
  accessor neither throws nor calls again: it makes that one call, writes one line with
  the action's name and the error code to the log, and returns the zero-initialised
  buffer as the call left it. The result is the zero-initialised structure whenever the
  failing call left the buffer as it was. This holds for \<^verbatim>\<open>getDigitalActionData\<close> on
  a digital action and, on its own, for \<^verbatim>\<open>getAnalogActionData\<close> on an analog one: the
  theorem is two implications, each with its own runtime, world and action.
\<close>

theorem C3_error_code_logged:
  "(type a = Digital
      \<and> GetDigitalActionData vr (handle a) zero_InputDigitalActionData_t
            (sizeof_InputDigitalActionData_t vr) k_ulInvalidInputValueHandle (runtime w)
          = (error, d, r)
      \<and> error \<noteq> VRInputError_None
    \<longrightarrow> getDigitalActionData vr a w =
          (Inr d, a,
           w\<lparr>runtime := r,
             errlog := errlog w
               @ [[Str ''Error getting IVRInput Digital Action Data for handle '',
                   Str (name a), Str ''. SteamVR Error: '', Err error]],
             calls := calls w
               @ [Call_GetDigitalActionData (handle a)
                    (sizeof_InputDigitalActionData_t vr) k_ulInvalidInputValueHandle]\<rparr>)
        \<and> (d = zero_InputDigitalActionData_t
             \<longrightarrow> fst (getDigitalActionData vr a w) = Inr zero_InputDigitalActionData_t))
   \<and> (type b = Analog
      \<and> GetAnalogActionData vr' (handle b) zero_InputAnalogActionData_t
            (sizeof_InputAnalogActionData_t vr') k_ulInvalidInputValueHandle (runtime w')
          = (error', d', r')
      \<and> error' \<noteq> VRInputError_None
    \<longrightarrow> getAnalogActionData vr' b w' =
          (Inr d', b,
           w'\<lparr>runtime := r',
             errlog := errlog w'
               @ [[Str ''Error getting IVRInput Digital Action Data for handle '',
                   Str (name b), Str ''. SteamVR Error: '', Err error']],
             calls := calls w'
               @ [Call_GetAnalogActionData (handle b)
                    (sizeof_InputAnalogActionData_t vr') k_ulInvalidInputValueHandle]\<rparr>)
        \<and> (d' = zero_InputAnalogActionData_t
             \<longrightarrow> fst (getAnalogActionData vr' b w') = Inr zero_InputAnalogActionData_t))"
proof (intro conjI impI)
  assume h: "type a = Digital
      \<and> GetDigitalActionData vr (handle a) zero_InputDigitalActionData_t
            (sizeof_InputDigitalActionData_t vr) k_ulInvalidInputValueHandle (runtime w)
          = (error, d, r)
      \<and> error \<noteq> VRInputError_None"
  then have t: "type a = Digital"
    and c: "GetDigitalActionData vr (handle a) zero_InputDigitalActionData_t
              (sizeof_InputDigitalActionData_t vr) k_ulInvalidInputValueHandle (runtime w)
            = (error, d, r)"
    and e: "error \<noteq> VRInputError_None"
    by simp_all
  from getDigitalActionData_digital [OF t c] e
  show "getDigitalActionData vr a w =
          (Inr d, a,
           w\<lparr>runtime := r,
             errlog := errlog w
               @ [[Str ''Error getting IVRInput Digital Action Data for handle '',
                   Str (name a), Str ''. SteamVR Error: '', Err error]],
             calls := calls w
               @ [Call_GetDigitalActionData (handle a)
                    (sizeof_InputDigitalActionData_t vr) k_ulInvalidInputValueHandle]\<rparr>)"
    by simp
  assume "d = zero_InputDigitalActionData_t"
  with getDigitalActionData_digital [OF t c]
  show "fst (getDigitalActionData vr a w) = Inr zero_InputDigitalActionData_t"
    by simp
next
  assume h: "type b = Analog
      \<and> GetAnalogActionData vr' (handle b) zero_InputAnalogActionData_t
            (sizeof_InputAnalogActionData_t vr') k_ulInvalidInputValueHandle (runtime w')
          = (error', d', r')
      \<and> error' \<noteq> VRInputError_None"
  then have t: "type b = Analog"
    and c: "GetAnalogActionData vr' (handle b) zero_InputAnalogActionData_t
              (sizeof_InputAnalogActionData_t vr') k_ulInvalidInputValueHandle (runtime w')
            = (error', d', r')"
    and e: "error' \<noteq> VRInputError_None"
    by simp_all
  from getAnalogActionData_analog [OF t c] e
  show "getAnalogActionData vr' b w' =
          (Inr d', b,
           w'\<lparr>runtime := r',
             errlog := errlog w'
               @ [[Str ''Error getting IVRInput Digital Action Data for handle '',
                   Str (name b), Str ''. SteamVR Error: '', Err error']],
             calls := calls w'
               @ [Call_GetAnalogActionData (handle b)
                    (sizeof_InputAnalogActionData_t vr') k_ulInvalidInputValueHandle]\<rparr>)"
    by simp
  assume "d' = zero_InputAnalogActionData_t"
  with getAnalogActionData_analog [OF t c]
  show "fst (getAnalogActionData vr' b w') = Inr zero_InputAnalogActionData_t"
    by simp
qed

text \<open>At a runtime that answers every call with error code 3 and leaves the buffers as
  they are, both accessors return the zero-initialised structure and log the error.\<close>

theorem C3_error_code_logged_witness:
  "getDigitalActionData (example_vr 3 id) example_digital example_world =
     (Inr zero_InputDigitalActionData_t, example_digital,
      \<lparr>runtime = 1,
       errlog = [[Str ''Error getting IVRInput Digital Action Data for handle '',
                  Str ''/actions/main/in/NextTrack'', Str ''. SteamVR Error: '', Err 3]],
       calls = [Call_GetDigitalActionData 7 28 k_ulInvalidInputValueHandle]\<rparr>)
   \<and> getAnalogActionData (example_vr 3 id) example_analog example_world =
     (Inr zero_InputAnalogActionData_t, example_analog,
      \<lparr>runtime = 1,
       errlog = [[Str ''Error getting IVRInput Digital Action Data for handle '',
                  Str ''/actions/main/in/Trigger'', Str ''. SteamVR Error: '', Err 3]],
       calls = [Call_GetAnalogActionData 9 40 k_ulInvalidInputValueHandle]\<rparr>)"
proof -
  have ta: "type example_digital = Digital" and tb: "type example_analog = Analog"
    by (simp_all add: example_digital_def example_analog_def)
  have ca: "GetDigitalActionData (example_vr 3 id) (handle example_digital)
              zero_InputDigitalActionData_t (sizeof_InputDigitalActionData_t (example_vr 3 id))
              k_ulInvalidInputValueHandle (runtime example_world)
            = (3, zero_InputDigitalActionData_t, 1)"
    by (simp add: example_vr_def example_world_def)
  have cb: "GetAnalogActionData (example_vr 3 id) (handle example_analog)
              zero_InputAnalogActionData_t (sizeof_InputAnalogActionData_t (example_vr 3 id))
              k_ulInvalidInputValueHandle (runtime example_world)
            = (3, zero_InputAnalogActionData_t, 1)"
    by (simp add: example_vr_def example_world_def)
  have e: "(3::int) \<noteq> VRInputError_None"
    by (simp add: VRInputError_None_def)
  have f: "name example_digital = ''/actions/main/in/NextTrack''"
    "name example_analog = ''/actions/main/in/Trigger''"
    "handle example_digital = 7" "handle example_analog = 9"
    "sizeof_InputDigitalActionData_t (example_vr 3 id) = 28"
    "sizeof_InputAnalogActionData_t (example_vr 3 id) = 40"
    by (simp_all add: example_digital_def example_analog_def example_vr_def)
  have g: "getDigitalActionData (example_vr 3 id) example_digital example_world =
             (Inr zero_InputDigitalActionData_t, example_digital,
              example_world\<lparr>runtime := 1,
                errlog := errlog example_world
                  @ [[Str ''Error getting IVRInput Digital Action Data for handle '',
                      Str (name example_digital), Str ''. SteamVR Error: '', Err 3]],
                calls := calls example_world
                  @ [Call_GetDigitalActionData (handle example_digital)
                       (sizeof_InputDigitalActionData_t (example_vr 3 id))
                       k_ulInvalidInputValueHandle]\<rparr>)"
    using C3_error_code_logged
      [where a = example_digital and vr = "example_vr 3 id" and w = example_world
         and error = 3 and d = zero_InputDigitalActionData_t and r = 1, THEN conjunct1]
      ta ca e
    by blast
  have h: "getAnalogActionData (example_vr 3 id) example_analog example_world =
             (Inr zero_InputAnalogActionData_t, example_analog,
              example_world\<lparr>runtime := 1,
                errlog := errlog example_world
                  @ [[Str ''Error getting IVRInput Digital Action Data for handle '',
                      Str (name example_analog), Str ''. SteamVR Error: '', Err 3]],
                calls := calls example_world
                  @ [Call_GetAnalogActionData (handle example_analog)
                       (sizeof_InputAnalogActionData_t (example_vr 3 id))
                       k_ulInvalidInputValueHandle]\<rparr>)"
    using C3_error_code_logged
      [where b = example_analog and vr' = "example_vr 3 id" and w' = example_world
         and error' = 3 and d' = zero_InputAnalogActionData_t and r' = 1, THEN conjunct2]
      tb cb e
    by blast
  from g h show ?thesis
    by (simp add: f example_world_def)
qed

subsection \<open>The per-frame refresh\<close>



subsection \<open>What never changes\<close>

text \<open>
  C6, as the specification states it, fails: \<^verbatim>\<open>UpdateStates\<close> hands the runtime the
  address of the member \<^verbatim>\<open>m_activeActionSet\<close>, so the runtime can write to it. At a
  runtime that writes a device restriction and a priority into the descriptor it is
  handed, the descriptor after one refresh is not the one the constructor left, and the
  second refresh passes the changed descriptor.
\<close>

theorem C6_descriptor_unchanged_counterexample:
  "m_activeActionSet (fst (SteamIVRInput_ctor writing_vr ''action_manifest.json'' example_strings example_world))
     = \<lparr>ulActionSet = 13, ulRestrictedToDevice = 0, nPriority = 0\<rparr>
   \<and> m_activeActionSet
         (fst (run writing_vr [M_UpdateStates]
                 (SteamIVRInput_ctor writing_vr ''action_manifest.json'' example_strings example_world)))
       = \<lparr>ulActionSet = 13, ulRestrictedToDevice = 77, nPriority = 5\<rparr>
   \<and> UpdateActionState_args
         (calls (snd (run writing_vr [M_UpdateStates, M_UpdateStates]
                        (SteamIVRInput_ctor writing_vr ''action_manifest.json'' example_strings example_world))))
       = [([\<lparr>ulActionSet = 13, ulRestrictedToDevice = 0, nPriority = 0\<rparr>], 32, 1),
          ([\<lparr>ulActionSet = 13, ulRestrictedToDevice = 77, nPriority = 5\<rparr>], 32, 1)]"
proof -
  have d: "m_activeActionSet (fst (SteamIVRInput_ctor writing_vr ''action_manifest.json'' example_strings example_world))
             = \<lparr>ulActionSet = 13, ulRestrictedToDevice = 0, nPriority = 0\<rparr>"
    by (simp add: SteamIVRInput_ctor_activeActionSet writing_ctor_mainSet
          k_ulInvalidInputValueHandle_def)
  have s: "sizeof_VRActiveActionSet_t writing_vr = 32"
    by (simp add: writing_vr_def example_vr_def)
  have c: "calls example_world = []"
    by (simp add: example_world_def)
  from d show ?thesis
    by (simp add: returned_def case_prod_beta writing_UpdateStates UpdateStates_args
          SteamIVRInput_ctor_args s c)
qed

text \<open>
  C6, amended. After the constructor, the active action set descriptor holds the handle
  of the main action set, the invalid input value handle as device restriction and
  priority 0. Provided the runtime leaves the one-element descriptor array it is handed
  by \<^verbatim>\<open>UpdateActionState\<close> as it is, whatever member functions are called afterwards,
  in any order and number, the descriptor stays as the constructor left it, and the
  calls of \<^verbatim>\<open>UpdateActionState\<close> made by them are one per \<^verbatim>\<open>UpdateStates\<close>, each with
  the array holding exactly this descriptor, its size and the count 1. Whatever the
  runtime does, a member function other than \<^verbatim>\<open>UpdateStates\<close> leaves the whole object
  as it is. Both versions of the module.
\<close>

theorem C6_active_action_set:
  "m_activeActionSet (fst (SteamIVRInput_ctor vr path strs w)) =
     \<lparr>ulActionSet = set_handle (m_mainSet (fst (SteamIVRInput_ctor vr path strs w))),
      ulRestrictedToDevice = k_ulInvalidInputValueHandle,
      nPriority = 0\<rparr>
   \<and> ((\<forall>s r. fst (snd (UpdateActionState vr [s] (sizeof_VRActiveActionSet_t vr) 1 r)) = [s])
      \<longrightarrow> m_activeActionSet (fst (run vr ms (SteamIVRInput_ctor vr path strs w)))
            = m_activeActionSet (fst (SteamIVRInput_ctor vr path strs w))
        \<and> UpdateActionState_args (calls (snd (run vr ms (SteamIVRInput_ctor vr path strs w))))
            = UpdateActionState_args (calls w)
              @ replicate (count_list ms M_UpdateStates)
                  ([m_activeActionSet (fst (SteamIVRInput_ctor vr path strs w))],
                   sizeof_VRActiveActionSet_t vr, 1))
   \<and> (m \<noteq> M_UpdateStates \<longrightarrow> fst (snd (invoke vr m self w')) = self)
   \<and> m_activeActionSet_part_001 (fst (SteamIVRInput_ctor_part_001 vr path strs' w)) =
     \<lparr>ulActionSet =
        set_handle (m_mainSet_part_001 (fst (SteamIVRInput_ctor_part_001 vr path strs' w))),
      ulRestrictedToDevice = k_ulInvalidInputValueHandle,
      nPriority = 0\<rparr>
   \<and> ((\<forall>s r. fst (snd (UpdateActionState vr [s] (sizeof_VRActiveActionSet_t vr) 1 r)) = [s])
      \<longrightarrow> m_activeActionSet_part_001
              (fst (run_part_001 vr ms' (SteamIVRInput_ctor_part_001 vr path strs' w)))
            = m_activeActionSet_part_001 (fst (SteamIVRInput_ctor_part_001 vr path strs' w))
        \<and> UpdateActionState_args
              (calls (snd (run_part_001 vr ms' (SteamIVRInput_ctor_part_001 vr path strs' w))))
            = UpdateActionState_args (calls w)
              @ replicate (count_list ms' P_UpdateStates)
                  ([m_activeActionSet_part_001 (fst (SteamIVRInput_ctor_part_001 vr path strs' w))],
                   sizeof_VRActiveActionSet_t vr, 1))
   \<and> (m' \<noteq> P_UpdateStates \<longrightarrow> fst (snd (invoke_part_001 vr m' self' w')) = self')"
proof -
  note a = SteamIVRInput_ctor_activeActionSet [of vr path strs w]
  note b = SteamIVRInput_ctor_part_001_activeActionSet [of vr path strs' w]
  have c: "m_activeActionSet (fst (run vr ms (SteamIVRInput_ctor vr path strs w)))
             = m_activeActionSet (fst (SteamIVRInput_ctor vr path strs w))
           \<and> UpdateActionState_args (calls (snd (run vr ms (SteamIVRInput_ctor vr path strs w))))
             = UpdateActionState_args (calls w)
               @ replicate (count_list ms M_UpdateStates)
                   ([m_activeActionSet (fst (SteamIVRInput_ctor vr path strs w))],
                    sizeof_VRActiveActionSet_t vr, 1)"
    if q: "(\<forall>s r. fst (snd (UpdateActionState vr [s] (sizeof_VRActiveActionSet_t vr) 1 r)) = [s])"
    using run_args [OF q, of ms "SteamIVRInput_ctor vr path strs w"]
    by (simp only: run_self [OF q] SteamIVRInput_ctor_args simp_thms)
  have d: "m_activeActionSet_part_001
              (fst (run_part_001 vr ms' (SteamIVRInput_ctor_part_001 vr path strs' w)))
             = m_activeActionSet_part_001 (fst (SteamIVRInput_ctor_part_001 vr path strs' w))
           \<and> UpdateActionState_args
               (calls (snd (run_part_001 vr ms' (SteamIVRInput_ctor_part_001 vr path strs' w))))
             = UpdateActionState_args (calls w)
               @ replicate (count_list ms' P_UpdateStates)
                   ([m_activeActionSet_part_001 (fst (SteamIVRInput_ctor_part_001 vr path strs' w))],
                    sizeof_VRActiveActionSet_t vr, 1)"
    if q: "(\<forall>s r. fst (snd (UpdateActionState vr [s] (sizeof_VRActiveActionSet_t vr) 1 r)) = [s])"
    using run_part_001_args [OF q, of ms' "SteamIVRInput_ctor_part_001 vr path strs' w"]
    by (simp only: run_part_001_self [OF q] SteamIVRInput_ctor_part_001_args simp_thms)
  have e: "m \<noteq> M_UpdateStates \<longrightarrow> fst (snd (invoke vr m self w')) = self"
    by (simp add: invoke_query)
  have f: "m' \<noteq> P_UpdateStates \<longrightarrow> fst (snd (invoke_part_001 vr m' self' w')) = self'"
    by (simp add: invoke_part_001_query)
  from a c e b d f show ?thesis
    by blast
qed

text \<open>The example runtime leaves the descriptor array as it is handed over. There the
  main action set resolves to the handle 13; after two refreshes with a query in
  between, the descriptor is unchanged and the runtime has received it twice.\<close>

theorem C6_active_action_set_witness:
  "m_activeActionSet (fst (SteamIVRInput_ctor (example_vr 0 id) ''action_manifest.json''
                             example_strings example_world))
     = \<lparr>ulActionSet = 13, ulRestrictedToDevice = 0, nPriority = 0\<rparr>
   \<and> m_activeActionSet
         (fst (run (example_vr 0 id) [M_UpdateStates, M_nextSong, M_UpdateStates]
                 (SteamIVRInput_ctor (example_vr 0 id) ''action_manifest.json''
                    example_strings example_world)))
       = \<lparr>ulActionSet = 13, ulRestrictedToDevice = 0, nPriority = 0\<rparr>
   \<and> UpdateActionState_args
         (calls (snd (run (example_vr 0 id) [M_UpdateStates, M_nextSong, M_UpdateStates]
                        (SteamIVRInput_ctor (example_vr 0 id) ''action_manifest.json''
                           example_strings example_world))))
       = [([\<lparr>ulActionSet = 13, ulRestrictedToDevice = 0, nPriority = 0\<rparr>], 32, 1),
          ([\<lparr>ulActionSet = 13, ulRestrictedToDevice = 0, nPriority = 0\<rparr>], 32, 1)]
   \<and> m_activeActionSet_part_001
         (fst (run_part_001 (example_vr 0 id) [P_pushToTalk, P_UpdateStates]
                 (SteamIVRInput_ctor_part_001 (example_vr 0 id) ''action_manifest.json''
                    example_strings_part_001 example_world)))
       = \<lparr>ulActionSet = 13, ulRestrictedToDevice = 0, nPriority = 0\<rparr>
   \<and> UpdateActionState_args
         (calls (snd (run_part_001 (example_vr 0 id) [P_pushToTalk, P_UpdateStates]
                        (SteamIVRInput_ctor_part_001 (example_vr 0 id) ''action_manifest.json''
                           example_strings_part_001 example_world))))
       = [([\<lparr>ulActionSet = 13, ulRestrictedToDevice = 0, nPriority = 0\<rparr>], 32, 1)]"
proof -
  have s: "sizeof_VRActiveActionSet_t (example_vr 0 id) = 32"
    by (simp add: example_vr_def)
  have n: "replicate 2 v = [v, v]" for v :: "VRActiveActionSet_t list \<times> nat \<times> nat"
    by (simp add: numeral_2_eq_2)
  have c: "calls example_world = []"
    by (simp add: example_world_def)
  have q: "\<forall>s r. fst (snd (UpdateActionState (example_vr 0 id) [s]
                               (sizeof_VRActiveActionSet_t (example_vr 0 id)) 1 r)) = [s]"
    by (simp add: example_vr_def)
  show ?thesis
    using q C6_active_action_set
      [where vr = "example_vr 0 id" and path = "''action_manifest.json''"
         and strs = example_strings and w = example_world
         and ms = "[M_UpdateStates, M_nextSong, M_UpdateStates]"
         and strs' = example_strings_part_001 and ms' = "[P_pushToTalk, P_UpdateStates]"]
    by (simp add: example_ctor_mainSet example_ctor_part_001_mainSet s n c
          k_ulInvalidInputValueHandle_def del: run.simps run_part_001.simps)
qed

text \<open>
  C7. No query changes an action. Each accessor leaves the action it was given by
  reference as it was (name, type and handle); each member function, and so each
  sequence of member function calls, leaves every member action of the object as it
  was. Both versions of the module.
\<close>

theorem C7_actions_unchanged:
  "fst (snd (getDigitalActionData vr action w)) = action
   \<and> fst (snd (getAnalogActionData vr action w)) = action
   \<and> fst (snd (isDigitalActionActivatedOnce vr action w)) = action
   \<and> fst (snd (isDigitalActionActivatedConstant vr action w)) = action
   \<and> actions (fst (snd (invoke vr m self w))) = actions self
   \<and> actions (fst (run vr ms (self, w))) = actions self
   \<and> fst (snd (getDigitalActionData_part_001 vr action w)) = action
   \<and> fst (snd (isDigitalActionActivatedOnce_part_001 vr action w)) = action
   \<and> fst (snd (isDigitalActionActivatedConstant_part_001 vr action w)) = action
   \<and> actions_part_001 (fst (snd (invoke_part_001 vr m' self' w))) = actions_part_001 self'
   \<and> actions_part_001 (fst (run_part_001 vr ms' (self', w))) = actions_part_001 self'"
  by (simp add: getDigitalActionData_action getAnalogActionData_action
        isDigitalActionActivatedOnce_eq isDigitalActionActivatedConstant_eq
        invoke_actions run_actions getDigitalActionData_part_001_action
        isDigitalActionActivatedOnce_part_001_eq isDigitalActionActivatedConstant_part_001_eq
        invoke_part_001_actions run_part_001_actions)

subsection \<open>The type mismatch cannot be reached through the class\<close>

text \<open>
  C9. The constructor gives every member action the type Digital, and every public
  member function called on the constructed object, after any sequence of earlier
  calls, returns normally: the exception of the type mismatch is never thrown. Both
  versions of the module.
\<close>

theorem C9_no_type_mismatch:
  "list_all (\<lambda>a. type a = Digital) (actions (fst (SteamIVRInput_ctor vr path strs w)))
   \<and> (\<exists>v. fst (invoke vr m (fst (run vr ms (SteamIVRInput_ctor vr path strs w)))
                 (snd (run vr ms (SteamIVRInput_ctor vr path strs w)))) = Inr v)
   \<and> list_all (\<lambda>a. type a = Digital)
         (actions_part_001 (fst (SteamIVRInput_ctor_part_001 vr path strs' w)))
   \<and> (\<exists>v. fst (invoke_part_001 vr m'
                 (fst (run_part_001 vr ms' (SteamIVRInput_ctor_part_001 vr path strs' w)))
                 (snd (run_part_001 vr ms' (SteamIVRInput_ctor_part_001 vr path strs' w))))
            = Inr v)"
proof -
  have a: "list_all (\<lambda>a. type a = Digital)
             (actions (fst (run vr ms (SteamIVRInput_ctor vr path strs w))))"
    by (simp only: run_actions SteamIVRInput_ctor_digital)
  have b: "list_all (\<lambda>a. type a = Digital)
             (actions_part_001
                (fst (run_part_001 vr ms' (SteamIVRInput_ctor_part_001 vr path strs' w))))"
    by (simp only: run_part_001_actions SteamIVRInput_ctor_part_001_digital)
  have c: "\<exists>v. fst (invoke vr m (fst (run vr ms (SteamIVRInput_ctor vr path strs w)))
                    (snd (run vr ms (SteamIVRInput_ctor vr path strs w)))) = Inr v"
    by (rule invoke_digital [OF a])
  have d: "\<exists>v. fst (invoke_part_001 vr m'
                    (fst (run_part_001 vr ms' (SteamIVRInput_ctor_part_001 vr path strs' w)))
                    (snd (run_part_001 vr ms' (SteamIVRInput_ctor_part_001 vr path strs' w))))
               = Inr v"
    by (rule invoke_part_001_digital [OF b])
  from SteamIVRInput_ctor_digital [of vr path strs w] c
    SteamIVRInput_ctor_part_001_digital [of vr path strs' w] d
  show ?thesis
    by (intro conjI)
qed

subsection \<open>The two versions\<close>

text \<open>
  C10. The accessors of the two versions are the same functions: on every runtime,
  action and world, \<^verbatim>\<open>getDigitalActionData\<close>, \<^verbatim>\<open>isDigitalActionActivatedOnce\<close> and
  \<^verbatim>\<open>isDigitalActionActivatedConstant\<close> of the second version return what those of the
  first return (result, action and world).
\<close>

theorem C10_versions_agree:
  "getDigitalActionData_part_001 vr action w = getDigitalActionData vr action w
   \<and> isDigitalActionActivatedOnce_part_001 vr action w = isDigitalActionActivatedOnce vr action w
   \<and> isDigitalActionActivatedConstant_part_001 vr action w
       = isDigitalActionActivatedConstant vr action w"
proof -
  have "getDigitalActionData_part_001 vr action w = getDigitalActionData vr action w"
    by (simp add: getDigitalActionData_part_001_def getDigitalActionData_def)
  then show ?thesis
    by (simp add: isDigitalActionActivatedOnce_part_001_def isDigitalActionActivatedOnce_def
          isDigitalActionActivatedConstant_part_001_def isDigitalActionActivatedConstant_def)
qed

end
